theory Spec2Isabelle
  imports Complex_Main "HOL-Library.Char_ord" "HOL-Library.List_Lexorder"
    "HOL-Library.Product_Lexorder"
begin

section \<open>Data model of \<open>server.py\<close>\<close>

text \<open>
  Python \<open>str\<close> values are modelled as \<open>string\<close>, one \<open>char\<close> per code point; the
  labels of the program stay below code point 256 (the accented o of the label
  for ``in review'' is \<open>CHR 0xF3\<close>).
  A \<open>datetime\<close> is a count of microseconds, a Python \<open>float\<close> that is only stored and
  handed back (\<open>estimated_hours\<close>) is a rational.
\<close>

type_synonym datetime = int

datatype RequestStatus = Pendiente | En_progreso | En_revision | Finalizada | Rechazada

datatype RequestType = Soporte | Mejora | Desarrollo | Capacitacion

datatype RequestChannel = WhatsApp | Correo | Sistema

datatype Priority = Alta | Media | Baja

datatype Rating = Up | Down

definition OPEN_STATES :: "RequestStatus list" where
  "OPEN_STATES = [Pendiente, En_progreso, En_revision]"

text \<open>The string that a status literal is in Python and in the stored documents.\<close>

fun label :: "RequestStatus \<Rightarrow> string" where
  "label Pendiente = ''Pendiente''"
| "label En_progreso = ''En progreso''"
| "label En_revision = ''En revisi'' @ [CHR 0xF3] @ ''n''"
| "label Finalizada = ''Finalizada''"
| "label Rechazada = ''Rechazada''"

record User =
  user_id :: string
  username :: string
  full_name :: string
  user_department :: string
  position :: string
  role :: string

record StateEvent =
  from_status :: "RequestStatus option"
  to_status :: RequestStatus
  ev_at :: datetime
  by_user_id :: string
  by_user_name :: string

record Feedback =
  rating :: Rating
  fb_comment :: "string option"
  fb_at :: datetime
  fb_by_user_id :: string
  fb_by_user_name :: string

text \<open>The dictionary stored under \<open>review_evidence\<close>.\<close>

record ReviewEvidence =
  re_type :: string
  re_url :: string
  re_by :: string
  re_at :: datetime

text \<open>
  A scalar as the document store holds it. The \<open>status\<close> entry of a stored request is
  the one field that the program reads untyped (\<open>_normalize_request_doc\<close>): it can be
  missing, null, a legacy label or any other scalar.
\<close>

datatype jvalue = JNull | JStr string | JNum int | JBool bool

text \<open>
  An entry that \<open>_normalize_request_doc\<close> fills by \<open>setdefault\<close>: the key can be
  missing, the value can be null, or it is a value of the field's type. \<open>setdefault\<close>
  fills a missing key only; a null stays and is refused by \<open>Request(**doc)\<close>, whose
  \<open>type\<close> and \<open>channel\<close> are not optional.
\<close>

datatype 'a entry = Missing | Null | Value 'a

text \<open>
  A document of the \<open>requests\<close> collection. For the optional fields \<open>None\<close> is a
  missing or null entry; \<open>assigned_by_id\<close> and \<open>assigned_by_name\<close> exist only in the
  stored document, the pydantic model \<open>Request\<close> has no such fields and drops them.
  The entries other than \<open>status\<close>, \<open>type\<close> and \<open>channel\<close> are held as the model
  \<open>Request\<close> accepts them.
\<close>

record RequestDoc =
  d_id :: string
  d_title :: string
  d_description :: string
  d_priority :: Priority
  d_type :: "RequestType entry"
  d_channel :: "RequestChannel entry"
  d_level :: "int option"
  d_status :: "jvalue option"
  d_requester_id :: string
  d_requester_name :: string
  d_department :: string
  d_assigned_to :: "string option"
  d_assigned_to_name :: "string option"
  d_assigned_by_id :: "string option"
  d_assigned_by_name :: "string option"
  d_estimated_hours :: "rat option"
  d_estimated_due :: "datetime option"
  d_requested_at :: datetime
  d_created_at :: datetime
  d_updated_at :: datetime
  d_completion_date :: "datetime option"
  d_state_history :: "StateEvent list"
  d_feedback :: "Feedback option"
  d_rejection_reason :: "string option"
  d_review_evidence :: "ReviewEvidence option"
  d_reabierto_count :: int

text \<open>The pydantic model \<open>Request\<close>.\<close>

record Request =
  r_id :: string
  title :: string
  description :: string
  priority :: Priority
  type :: RequestType
  channel :: RequestChannel
  level :: "int option"
  status :: RequestStatus
  requester_id :: string
  requester_name :: string
  department :: string
  assigned_to :: "string option"
  assigned_to_name :: "string option"
  estimated_hours :: "rat option"
  estimated_due :: "datetime option"
  requested_at :: datetime
  created_at :: datetime
  updated_at :: datetime
  completion_date :: "datetime option"
  state_history :: "StateEvent list"
  feedback :: "Feedback option"
  rejection_reason :: "string option"
  review_evidence :: "ReviewEvidence option"
  reabierto_count :: int

text \<open>A document of the \<open>ticket_status_events\<close> collection (the Event Log).\<close>

record TicketStatusEvent =
  tse_id :: string
  ticket_id :: string
  estado :: RequestStatus
  changed_by :: string
  changed_at :: datetime

text \<open>The collections of the database that the request operations touch.\<close>

record DB =
  requests :: "RequestDoc list"
  ticket_status_events :: "TicketStatusEvent list"
  users :: "User list"

text \<open>
  \<open>HTTPException\<close> by cause; \<open>status_code\<close> gives the code each is raised with.
  \<open>ServerError\<close> stands for an exception that is not an \<open>HTTPException\<close>
  (a pydantic validation failure, a \<open>TypeError\<close>).
\<close>

datatype error =
    NotFound
  | InvalidTransition
  | ValidationError
  | Forbidden
  | TargetUserNotFound
  | AssignedUserNotFound
  | NotFinalized
  | FeedbackExists
  | ServerError

fun status_code :: "error \<Rightarrow> nat" where
  "status_code NotFound = 404"
| "status_code InvalidTransition = 400"
| "status_code ValidationError = 422"
| "status_code Forbidden = 403"
| "status_code TargetUserNotFound = 400"
| "status_code AssignedUserNotFound = 400"
| "status_code NotFinalized = 400"
| "status_code FeedbackExists = 400"
| "status_code ServerError = 500"

section \<open>Payloads\<close>

text \<open>
  Where the program asks whether a field was sent (\<open>dict(exclude_unset=True)\<close>), the
  field is an \<open>option option\<close>: \<open>None\<close> not sent, \<open>Some None\<close> sent as null.
\<close>

record TransitionPayload =
  tp_to_status :: RequestStatus
  tp_comment :: "string option"
  tp_evidence_link :: "string option"

record AssignPayload =
  ap_assigned_to :: "string option"
  ap_estimated_hours :: "rat option"
  ap_estimated_due :: "datetime option"

record ClassifyPayload =
  cp_level :: int
  cp_priority :: Priority

record FeedbackPayload =
  fp_rating :: Rating
  fp_comment :: "string option"

record RequestUpdate =
  ru_status :: "RequestStatus option option"
  ru_assigned_to :: "string option option"
  ru_estimated_hours :: "rat option option"
  ru_estimated_due :: "datetime option option"

record RequestCreate =
  rc_title :: string
  rc_description :: string
  rc_priority :: Priority
  rc_type :: RequestType
  rc_channel :: "RequestChannel option"
  rc_requested_at :: "datetime option option"
  rc_level :: "int option option"
  rc_assigned_to :: "string option option"
  rc_estimated_hours :: "rat option option"
  rc_estimated_due :: "datetime option option"

section \<open>Strings\<close>

text \<open>\<open>str.isspace\<close> on one code point below 256.\<close>

definition is_space :: "char \<Rightarrow> bool" where
  "is_space c = (let n = (of_char c :: nat) in
     (9 \<le> n \<and> n \<le> 13) \<or> (28 \<le> n \<and> n \<le> 32) \<or> n = 133 \<or> n = 160)"

definition strip :: "string \<Rightarrow> string" where
  "strip s = rev (dropWhile is_space (rev (dropWhile is_space s)))"

text \<open>\<open>not s or not s.strip()\<close> for an optional string \<open>s\<close>.\<close>

definition blank :: "string option \<Rightarrow> bool" where
  "blank s = (case s of None \<Rightarrow> True | Some t \<Rightarrow> t = [] \<or> strip t = [])"

section \<open>Transitions and normalisation\<close>

fun ALLOWED_TRANSITIONS :: "RequestStatus \<Rightarrow> RequestStatus set" where
  "ALLOWED_TRANSITIONS Pendiente = {En_progreso, Rechazada}"
| "ALLOWED_TRANSITIONS En_progreso = {En_revision}"
| "ALLOWED_TRANSITIONS En_revision = {Finalizada, En_progreso}"
| "ALLOWED_TRANSITIONS Finalizada = {}"
| "ALLOWED_TRANSITIONS Rechazada = {}"

definition ensure_transition :: "RequestStatus \<Rightarrow> RequestStatus \<Rightarrow> error + unit" where
  "ensure_transition old new =
     (if new \<notin> ALLOWED_TRANSITIONS old then Inl InvalidTransition else Inr ())"

definition VALID_STATUSES :: "string set" where
  "VALID_STATUSES = {''Pendiente'', ''En progreso'', ''En revisi'' @ [CHR 0xF3] @ ''n'',
     ''Finalizada'', ''Rechazada''}"

definition STATUS_SYNONYMS :: "(string \<times> string) list" where
  "STATUS_SYNONYMS =
    [(''Completada'', ''Finalizada''),
     (''Completado'', ''Finalizada''),
     (''completada'', ''Finalizada''),
     (''completado'', ''Finalizada''),
     (''En Progreso'', ''En progreso''),
     (''En Revisi'' @ [CHR 0xF3] @ ''n'', ''En revisi'' @ [CHR 0xF3] @ ''n''),
     (''Cancelada'', ''Rechazada''),
     (''Cancelado'', ''Rechazada'')]"

text \<open>\<open>v in VALID_STATUSES\<close> for a stored scalar.\<close>

fun in_valid_statuses :: "jvalue \<Rightarrow> bool" where
  "in_valid_statuses (JStr s) = (s \<in> VALID_STATUSES)"
| "in_valid_statuses _ = False"

text \<open>
  What \<open>_normalize_request_doc\<close> leaves under the key \<open>status\<close>, from what the
  document holds there (\<open>None\<close>: no such key): \<open>with_synonym\<close> is the entry after
  \<open>setdefault\<close> and the lookup in \<open>STATUS_SYNONYMS\<close>, \<open>normalize_status\<close> the entry after
  the test against \<open>VALID_STATUSES\<close>.
\<close>

definition with_synonym :: "jvalue option \<Rightarrow> jvalue" where
  "with_synonym v =
    (let st = (case v of None \<Rightarrow> JStr ''Pendiente'' | Some x \<Rightarrow> x)
     in (case st of
           JStr s \<Rightarrow> (case map_of STATUS_SYNONYMS s of Some t \<Rightarrow> JStr t | None \<Rightarrow> st)
         | _ \<Rightarrow> st))"

definition normalize_status :: "jvalue option \<Rightarrow> jvalue" where
  "normalize_status v =
    (let st = with_synonym v
     in if \<not> in_valid_statuses st then JStr ''Pendiente'' else st)"

definition normalize_request_doc :: "RequestDoc \<Rightarrow> RequestDoc" where
  "normalize_request_doc d =
     d\<lparr>d_type := (case d_type d of Missing \<Rightarrow> Value Soporte | e \<Rightarrow> e),
       d_channel := (case d_channel d of Missing \<Rightarrow> Value Sistema | e \<Rightarrow> e),
       d_status := Some (normalize_status (d_status d))\<rparr>"

text \<open>
  Validation of a \<open>status\<close> entry against the literal type \<open>RequestStatus\<close>; \<open>None\<close> is
  the pydantic validation error.
\<close>

definition parse_status :: "jvalue option \<Rightarrow> RequestStatus option" where
  "parse_status v =
     (case v of
        Some (JStr s) \<Rightarrow> find (\<lambda>st. label st = s)
                           [Pendiente, En_progreso, En_revision, Finalizada, Rechazada]
      | _ \<Rightarrow> None)"

text \<open>
  \<open>Request(**doc)\<close> for a document that went through \<open>_normalize_request_doc\<close>:
  the entries \<open>status\<close>, \<open>type\<close> and \<open>channel\<close> are validated, the others copied.
  \<open>build_request\<close> is \<open>None\<close> where pydantic raises its validation error.
\<close>

definition request_of ::
  "RequestDoc \<Rightarrow> RequestStatus \<Rightarrow> RequestType \<Rightarrow> RequestChannel \<Rightarrow> Request" where
  "request_of d st ty ch =
    \<lparr>r_id = d_id d, title = d_title d, description = d_description d,
     priority = d_priority d, type = ty, channel = ch, level = d_level d,
     status = st, requester_id = d_requester_id d,
     requester_name = d_requester_name d, department = d_department d,
     assigned_to = d_assigned_to d, assigned_to_name = d_assigned_to_name d,
     estimated_hours = d_estimated_hours d, estimated_due = d_estimated_due d,
     requested_at = d_requested_at d, created_at = d_created_at d,
     updated_at = d_updated_at d, completion_date = d_completion_date d,
     state_history = d_state_history d, feedback = d_feedback d,
     rejection_reason = d_rejection_reason d,
     review_evidence = d_review_evidence d,
     reabierto_count = d_reabierto_count d\<rparr>"

definition build_request :: "RequestDoc \<Rightarrow> Request option" where
  "build_request d =
    (case (parse_status (d_status d), d_type d, d_channel d) of
       (Some st, Value ty, Value ch) \<Rightarrow> Some (request_of d st ty ch)
     | _ \<Rightarrow> None)"

definition to_request :: "RequestDoc \<Rightarrow> Request option" where
  "to_request doc = build_request (normalize_request_doc doc)"


section \<open>The document store\<close>

text \<open>\<open>find_one({"id": request_id})\<close>: the first document with that id.\<close>

definition find_request :: "DB \<Rightarrow> string \<Rightarrow> RequestDoc option" where
  "find_request db request_id = find (\<lambda>d. d_id d = request_id) (requests db)"

definition find_user :: "DB \<Rightarrow> string \<Rightarrow> User option" where
  "find_user db uid = find (\<lambda>u. user_id u = uid) (users db)"

text \<open>\<open>update_one({"id": request_id}, ops)\<close>: \<open>ops\<close> applied to the first match.\<close>

fun update_first :: "string \<Rightarrow> (RequestDoc \<Rightarrow> RequestDoc) \<Rightarrow> RequestDoc list \<Rightarrow> RequestDoc list" where
  "update_first request_id f [] = []"
| "update_first request_id f (d # ds) =
     (if d_id d = request_id then f d # ds else d # update_first request_id f ds)"

definition update_request :: "DB \<Rightarrow> string \<Rightarrow> (RequestDoc \<Rightarrow> RequestDoc) \<Rightarrow> DB" where
  "update_request db request_id f = db\<lparr>requests := update_first request_id f (requests db)\<rparr>"

text \<open>
  The closing \<open>doc = find_one(...); return _to_request(doc)\<close> of the handlers. Without
  a document \<open>_to_request(None)\<close> raises a \<open>TypeError\<close>.
\<close>

definition reload :: "DB \<Rightarrow> string \<Rightarrow> DB \<times> (error + Request)" where
  "reload db request_id =
     (case find_request db request_id of
        None \<Rightarrow> (db, Inl ServerError)
      | Some doc \<Rightarrow>
          (case to_request doc of
             None \<Rightarrow> (db, Inl ServerError)
           | Some r \<Rightarrow> (db, Inr r)))"

section \<open>Request operations\<close>

text \<open>
  Every handler is a function from the database, the values it draws from outside
  (\<open>now\<close> for the handler's own \<open>datetime.now\<close>, \<open>stamp\<close> for the clock reading of the
  pydantic default factories, fresh uuids) and its arguments to the database afterwards
  and the response or the exception. \<open>current_user\<close> is the user the dependency
  \<open>require_role\<close> let through.
\<close>

definition require_role :: "string list \<Rightarrow> User \<Rightarrow> error + User" where
  "require_role required_roles current_user =
     (if role current_user \<notin> set required_roles then Inl Forbidden else Inr current_user)"

text \<open>\<open>new_request.dict()\<close>: the document inserted for a fresh \<open>Request\<close>.\<close>

definition request_dict :: "Request \<Rightarrow> RequestDoc" where
  "request_dict r =
    \<lparr>d_id = r_id r, d_title = title r, d_description = description r,
     d_priority = priority r, d_type = Value (type r), d_channel = Value (channel r),
     d_level = level r, d_status = Some (JStr (label (status r))),
     d_requester_id = requester_id r, d_requester_name = requester_name r,
     d_department = department r, d_assigned_to = assigned_to r,
     d_assigned_to_name = assigned_to_name r, d_assigned_by_id = None,
     d_assigned_by_name = None, d_estimated_hours = estimated_hours r,
     d_estimated_due = estimated_due r, d_requested_at = requested_at r,
     d_created_at = created_at r, d_updated_at = updated_at r,
     d_completion_date = completion_date r, d_state_history = state_history r,
     d_feedback = feedback r, d_rejection_reason = rejection_reason r,
     d_review_evidence = review_evidence r, d_reabierto_count = reabierto_count r\<rparr>"

text \<open>
  \<open>create_request\<close> up to its first \<open>return\<close>; the statements after it, among them the
  insertion into \<open>ticket_status_events\<close>, are never run. \<open>base_request\<close> is the
  \<open>Request(...)\<close> built first, \<open>admin_fields\<close> the block that only an admin enters.
\<close>

definition base_request ::
  "datetime \<Rightarrow> datetime \<Rightarrow> string \<Rightarrow> RequestCreate \<Rightarrow> User \<Rightarrow> Request" where
  "base_request now stamp new_id payload current_user =
     \<lparr>r_id = new_id, title = rc_title payload, description = rc_description payload,
      priority = rc_priority payload, type = rc_type payload,
      channel = (case rc_channel payload of None \<Rightarrow> Sistema | Some c \<Rightarrow> c),
      level = None, status = Pendiente, requester_id = user_id current_user,
      requester_name = full_name current_user,
      department = user_department current_user,
      assigned_to = None, assigned_to_name = None, estimated_hours = None,
      estimated_due = None,
      requested_at = (case rc_requested_at payload of Some (Some t) \<Rightarrow> t | _ \<Rightarrow> now),
      created_at = stamp, updated_at = stamp, completion_date = None,
      state_history = [], feedback = None, rejection_reason = None,
      review_evidence = None, reabierto_count = 0\<rparr>"

definition admin_fields :: "DB \<Rightarrow> RequestCreate \<Rightarrow> Request \<Rightarrow> error + Request" where
  "admin_fields db payload new_request =
     (let r1 = (case rc_level payload of Some (Some l) \<Rightarrow> new_request\<lparr>level := Some l\<rparr>
                | _ \<Rightarrow> new_request);
          r2 = (case rc_estimated_hours payload of Some h \<Rightarrow> r1\<lparr>estimated_hours := h\<rparr>
                | None \<Rightarrow> r1);
          r3 = (case rc_estimated_due payload of Some t \<Rightarrow> r2\<lparr>estimated_due := t\<rparr>
                | None \<Rightarrow> r2)
      in (case rc_assigned_to payload of
            Some (Some a) \<Rightarrow>
              (if a = [] then Inr r3
               else (case find_user db a of
                       None \<Rightarrow> Inl AssignedUserNotFound
                     | Some u \<Rightarrow> Inr (r3\<lparr>assigned_to := Some (user_id u),
                                         assigned_to_name := Some (full_name u)\<rparr>)))
          | _ \<Rightarrow> Inr r3))"

definition create_request ::
  "DB \<Rightarrow> datetime \<Rightarrow> datetime \<Rightarrow> string \<Rightarrow> RequestCreate \<Rightarrow> User \<Rightarrow> DB \<times> (error + Request)" where
  "create_request db now stamp new_id payload current_user =
    (let base = base_request now stamp new_id payload current_user in
     (case (if role current_user = ''admin'' then admin_fields db payload base else Inr base) of
        Inl e \<Rightarrow> (db, Inl e)
      | Inr r \<Rightarrow>
          (let new_request = r\<lparr>state_history := state_history r @
                 [\<lparr>from_status = None, to_status = status r, ev_at = stamp,
                   by_user_id = user_id current_user,
                   by_user_name = full_name current_user\<rparr>]\<rparr>
           in (db\<lparr>requests := requests db @ [request_dict new_request]\<rparr>,
               Inr new_request))))"

definition classify_request ::
  "DB \<Rightarrow> datetime \<Rightarrow> string \<Rightarrow> ClassifyPayload \<Rightarrow> User \<Rightarrow> DB \<times> (error + Request)" where
  "classify_request db now request_id payload current_user =
    (case find_request db request_id of
       None \<Rightarrow> (db, Inl NotFound)
     | Some doc \<Rightarrow>
         reload (update_request db request_id
                   (\<lambda>d. d\<lparr>d_level := Some (cp_level payload),
                          d_priority := cp_priority payload,
                          d_updated_at := now\<rparr>)) request_id)"

text \<open>\<open>payload.assigned_to or current_user.id\<close>.\<close>

definition target_user_id :: "AssignPayload \<Rightarrow> User \<Rightarrow> string" where
  "target_user_id payload current_user =
     (case ap_assigned_to payload of
        None \<Rightarrow> user_id current_user
      | Some a \<Rightarrow> if a = [] then user_id current_user else a)"

definition assign_request ::
  "DB \<Rightarrow> datetime \<Rightarrow> string \<Rightarrow> AssignPayload \<Rightarrow> User \<Rightarrow> DB \<times> (error + Request)" where
  "assign_request db now request_id payload current_user =
    (case find_request db request_id of
       None \<Rightarrow> (db, Inl NotFound)
     | Some doc \<Rightarrow>
         (case find_user db (target_user_id payload current_user) of
            None \<Rightarrow> (db, Inl TargetUserNotFound)
          | Some target_user \<Rightarrow>
              reload (update_request db request_id
                        (\<lambda>d. d\<lparr>d_assigned_to := Some (user_id target_user),
                               d_assigned_to_name := Some (full_name target_user),
                               d_estimated_hours := ap_estimated_hours payload,
                               d_estimated_due := ap_estimated_due payload,
                               d_updated_at := now,
                               d_assigned_by_id := Some (user_id current_user),
                               d_assigned_by_name := Some (full_name current_user)\<rparr>))
                request_id))"

definition unassign_request ::
  "DB \<Rightarrow> datetime \<Rightarrow> string \<Rightarrow> AssignPayload \<Rightarrow> User \<Rightarrow> DB \<times> (error + Request)" where
  "unassign_request db now request_id payload current_user =
    (case find_request db request_id of
       None \<Rightarrow> (db, Inl NotFound)
     | Some doc \<Rightarrow>
         (case find_user db (target_user_id payload current_user) of
            None \<Rightarrow> (db, Inl TargetUserNotFound)
          | Some target_user \<Rightarrow>
              reload (update_request db request_id
                        (\<lambda>d. d\<lparr>d_assigned_to := Some (user_id target_user),
                               d_assigned_to_name := Some (full_name target_user),
                               d_estimated_hours := ap_estimated_hours payload,
                               d_estimated_due := ap_estimated_due payload,
                               d_updated_at := now\<rparr>))
                request_id))"

text \<open>
  The update document of \<open>transition_request\<close>: \<open>$set\<close> of \<open>set_ops\<close>, \<open>$push\<close> of the
  history event and, for a reopening, \<open>$inc\<close> of \<open>reabierto_count\<close>. \<open>current\<close> is the
  request as read before the update. Where the target is \<open>Rechazada\<close> or
  \<open>En_revision\<close> the guards of the handler have made sure that the comment or the link
  is a string.
\<close>

definition transition_ops ::
  "Request \<Rightarrow> TransitionPayload \<Rightarrow> User \<Rightarrow> datetime \<Rightarrow> datetime \<Rightarrow> RequestDoc \<Rightarrow> RequestDoc" where
  "transition_ops current payload current_user now stamp d =
    (let to = tp_to_status payload in
     d\<lparr>d_status := Some (JStr (label to)),
       d_updated_at := now,
       d_completion_date :=
         (if to \<in> {Finalizada, Rechazada} then Some now else d_completion_date d),
       d_rejection_reason :=
         (if to = Rechazada then map_option strip (tp_comment payload)
          else d_rejection_reason d),
       d_review_evidence :=
         (if to = En_revision
          then map_option (\<lambda>l. \<lparr>re_type = ''link'', re_url = strip l,
                                  re_by = user_id current_user, re_at = now\<rparr>)
                 (tp_evidence_link payload)
          else d_review_evidence d),
       d_state_history := d_state_history d @
         [\<lparr>from_status = Some (status current), to_status = to, ev_at = stamp,
           by_user_id = user_id current_user, by_user_name = full_name current_user\<rparr>],
       d_reabierto_count :=
         (if status current = Finalizada \<and> to \<in> set OPEN_STATES
          then d_reabierto_count d + 1 else d_reabierto_count d)\<rparr>)"

definition transition_request ::
  "DB \<Rightarrow> datetime \<Rightarrow> datetime \<Rightarrow> string \<Rightarrow> string \<Rightarrow> TransitionPayload \<Rightarrow> User
     \<Rightarrow> DB \<times> (error + Request)" where
  "transition_request db now stamp event_id request_id payload current_user =
    (case find_request db request_id of
       None \<Rightarrow> (db, Inl NotFound)
     | Some doc \<Rightarrow>
         (case to_request doc of
            None \<Rightarrow> (db, Inl ServerError)
          | Some current \<Rightarrow>
              (case ensure_transition (status current) (tp_to_status payload) of
                 Inl e \<Rightarrow> (db, Inl e)
               | Inr _ \<Rightarrow>
                   if tp_to_status payload = Rechazada \<and> blank (tp_comment payload)
                   then (db, Inl ValidationError)
                   else if tp_to_status payload = En_revision
                        \<and> Some (user_id current_user) \<notin> {d_assigned_to doc, d_assigned_by_id doc}
                        \<and> role current_user \<noteq> ''admin''
                   then (db, Inl Forbidden)
                   else if tp_to_status payload = En_revision
                        \<and> blank (tp_evidence_link payload)
                   then (db, Inl ValidationError)
                   else
                     (let db1 = update_request db request_id
                                  (transition_ops current payload current_user now stamp);
                          db2 = db1\<lparr>ticket_status_events := ticket_status_events db1 @
                                  [\<lparr>tse_id = event_id, ticket_id = request_id,
                                    estado = tp_to_status payload,
                                    changed_by = user_id current_user,
                                    changed_at = now\<rparr>]\<rparr>
                      in reload db2 request_id))))"

definition submit_feedback ::
  "DB \<Rightarrow> datetime \<Rightarrow> string \<Rightarrow> FeedbackPayload \<Rightarrow> User \<Rightarrow> DB \<times> (error + Request)" where
  "submit_feedback db stamp request_id payload current_user =
    (case find_request db request_id of
       None \<Rightarrow> (db, Inl NotFound)
     | Some doc \<Rightarrow>
         (case to_request doc of
            None \<Rightarrow> (db, Inl ServerError)
          | Some req \<Rightarrow>
              if role current_user \<noteq> ''admin'' \<and> requester_id req \<noteq> user_id current_user
              then (db, Inl Forbidden)
              else if status req \<noteq> Finalizada then (db, Inl NotFinalized)
              else if feedback req \<noteq> None then (db, Inl FeedbackExists)
              else reload (update_request db request_id
                     (\<lambda>d. d\<lparr>d_feedback := Some
                        \<lparr>rating = fp_rating payload, fb_comment = fp_comment payload,
                         fb_at = stamp, fb_by_user_id = user_id current_user,
                         fb_by_user_name = full_name current_user\<rparr>\<rparr>)) request_id))"

text \<open>
  \<open>$set\<close> of \<open>update_data\<close> in \<open>update_request_generic\<close>: the fields that were sent,
  a null included, and \<open>updated_at\<close>.
\<close>

definition set_update_data :: "RequestUpdate \<Rightarrow> datetime \<Rightarrow> RequestDoc \<Rightarrow> RequestDoc" where
  "set_update_data request_update now d =
    d\<lparr>d_status :=
        (case ru_status request_update of
           None \<Rightarrow> d_status d
         | Some None \<Rightarrow> Some JNull
         | Some (Some s) \<Rightarrow> Some (JStr (label s))),
      d_assigned_to :=
        (case ru_assigned_to request_update of None \<Rightarrow> d_assigned_to d | Some v \<Rightarrow> v),
      d_estimated_hours :=
        (case ru_estimated_hours request_update of None \<Rightarrow> d_estimated_hours d | Some v \<Rightarrow> v),
      d_estimated_due :=
        (case ru_estimated_due request_update of None \<Rightarrow> d_estimated_due d | Some v \<Rightarrow> v),
      d_updated_at := now\<rparr>"

text \<open>
  \<open>"assigned_to" in update_data and update_data["assigned_to"]\<close>, then the lookup of
  that user: the name to set, if any.
\<close>

definition generic_assigned_name :: "DB \<Rightarrow> RequestUpdate \<Rightarrow> string option" where
  "generic_assigned_name db request_update =
     (case ru_assigned_to request_update of
        Some (Some a) \<Rightarrow>
          (if a = [] then None else map_option full_name (find_user db a))
      | _ \<Rightarrow> None)"

definition set_assigned_name :: "string option \<Rightarrow> RequestDoc \<Rightarrow> RequestDoc" where
  "set_assigned_name n d = (case n of None \<Rightarrow> d | Some v \<Rightarrow> d\<lparr>d_assigned_to_name := Some v\<rparr>)"

definition update_request_generic ::
  "DB \<Rightarrow> datetime \<Rightarrow> datetime \<Rightarrow> string \<Rightarrow> string \<Rightarrow> RequestUpdate \<Rightarrow> User
     \<Rightarrow> DB \<times> (error + Request)" where
  "update_request_generic db now stamp event_id request_id request_update current_user =
    (case find_request db request_id of
       None \<Rightarrow> (db, Inl NotFound)
     | Some doc \<Rightarrow>
         (case to_request doc of
            None \<Rightarrow> (db, Inl ServerError)
          | Some current \<Rightarrow>
              (case (case ru_status request_update of
                       Some (Some new) \<Rightarrow> if new \<noteq> status current then Some new else None
                     | _ \<Rightarrow> None) of
                 Some new \<Rightarrow>
                   (case ensure_transition (status current) new of
                      Inl e \<Rightarrow> (db, Inl e)
                    | Inr _ \<Rightarrow>
                        (let ops = (\<lambda>d. (set_update_data request_update now d)
                               \<lparr>d_completion_date :=
                                  (if new \<in> {Finalizada, Rechazada} then Some now
                                   else d_completion_date d),
                                d_state_history := d_state_history d @
                                  [\<lparr>from_status = Some (status current), to_status = new,
                                    ev_at = stamp, by_user_id = user_id current_user,
                                    by_user_name = full_name current_user\<rparr>],
                                d_reabierto_count :=
                                  (if status current = Finalizada \<and> new \<in> set OPEN_STATES
                                   then d_reabierto_count d + 1 else d_reabierto_count d)\<rparr>);
                             db1 = db\<lparr>ticket_status_events := ticket_status_events db @
                                     [\<lparr>tse_id = event_id, ticket_id = request_id,
                                       estado = new, changed_by = user_id current_user,
                                       changed_at = now\<rparr>]\<rparr>;
                             db2 = update_request db1 request_id
                                     (set_assigned_name (generic_assigned_name db1 request_update) \<circ> ops)
                         in reload db2 request_id))
               | None \<Rightarrow>
                   (let db2 = update_request db request_id
                                (set_assigned_name (generic_assigned_name db request_update)
                                   \<circ> set_update_data request_update now)
                    in reload db2 request_id))))"

section \<open>Time by state\<close>

text \<open>
  \<open>metrics_time_by_state\<close>. Python's floating point is not interpreted: the float
  operations that the handler uses are the fields of a parameter, and \<open>'f\<close> is the type
  of floats. \<open>td_hours d\<close> is \<open>td.total_seconds() / 3600\<close> for a \<open>timedelta\<close> of \<open>d\<close>
  microseconds, \<open>f_add\<close> is \<open>+\<close>, \<open>f_zero\<close> is the \<open>0.0\<close> that \<open>defaultdict(float)\<close> starts
  from, \<open>f_round1 v\<close> is \<open>round(v, 1)\<close>.
\<close>

record 'f pyfloat =
  td_hours :: "int \<Rightarrow> 'f"
  f_add :: "'f \<Rightarrow> 'f \<Rightarrow> 'f"
  f_zero :: 'f
  f_round1 :: "'f \<Rightarrow> 'f"

text \<open>
  A Python \<open>datetime\<close> is naive or timezone-aware; the number is its instant in
  microseconds. The times the store hands back are naive (the client of
  \<open>server.py\<close> is created without \<open>tz_aware\<close>), so the \<open>changed_at\<close> of a fetched record is
  a naive time. \<open>datetime.now(timezone.utc)\<close> is aware; a time parsed from a query
  parameter is aware when the text carries an offset.
\<close>

datatype pydatetime = Naive datetime | Aware datetime

fun instant :: "pydatetime \<Rightarrow> datetime" where
  "instant (Naive t) = t"
| "instant (Aware t) = t"

text \<open>
  \<open>a - t\<close> for a naive \<open>t\<close>, in microseconds: Python raises \<open>TypeError\<close> when \<open>a\<close> is
  aware.
\<close>

definition minus_naive :: "pydatetime \<Rightarrow> datetime \<Rightarrow> error + int" where
  "minus_naive a t = (case a of Naive e \<Rightarrow> Inr (e - t) | Aware e \<Rightarrow> Inl ServerError)"

text \<open>
  \<open>_range_for_period\<close> without \<open>ref\<close>: \<open>now\<close> is \<open>datetime.now(timezone.utc)\<close>, and
  \<open>period_start\<close> stands for the start of the day, week or month of \<open>now\<close> that the
  function computes with \<open>replace\<close> (calendar arithmetic is not modelled); both are
  aware. \<open>_resolve_range\<close> takes the explicit bounds when both are given.
\<close>

definition range_for_period :: "datetime \<Rightarrow> datetime \<Rightarrow> pydatetime \<times> pydatetime" where
  "range_for_period period_start now = (Aware period_start, Aware now)"

definition resolve_range ::
  "datetime \<Rightarrow> datetime \<Rightarrow> pydatetime option \<Rightarrow> pydatetime option \<Rightarrow> pydatetime \<times> pydatetime" where
  "resolve_range period_start now date_from date_to =
     (case (date_from, date_to) of
        (Some f, Some t) \<Rightarrow> (f, t)
      | _ \<Rightarrow> range_for_period period_start now)"

text \<open>\<open>d[k] = v\<close> on a Python dictionary, which keeps its keys in insertion order.\<close>

fun dict_set :: "'k \<Rightarrow> 'v \<Rightarrow> ('k \<times> 'v) list \<Rightarrow> ('k \<times> 'v) list" where
  "dict_set k v [] = [(k, v)]"
| "dict_set k v (kv # kvs) = (if fst kv = k then (k, v) # kvs else kv # dict_set k v kvs)"

text \<open>\<open>state_time[k] += delta_h\<close> on the \<open>defaultdict(float)\<close>.\<close>

definition add_hours ::
  "'f pyfloat \<Rightarrow> RequestStatus \<Rightarrow> 'f \<Rightarrow> (RequestStatus \<times> 'f) list \<Rightarrow> (RequestStatus \<times> 'f) list" where
  "add_hours fl k delta_h state_time =
     dict_set k (f_add fl (case map_of state_time k of None \<Rightarrow> f_zero fl | Some v \<Rightarrow> v) delta_h)
       state_time"

text \<open>
  The body of the loop over the events; the accumulator is \<open>(state_time, last)\<close>. Both
  times are naive, so the difference is defined. The test \<open>delta_h > 0\<close> is made on the
  microseconds: the quotient of a \<open>timedelta\<close> by 3600 seconds is positive exactly when
  the \<open>timedelta\<close> is.
\<close>

definition walk_event ::
  "'f pyfloat \<Rightarrow> (RequestStatus \<times> 'f) list \<times> (string \<times> RequestStatus \<times> datetime) list
     \<Rightarrow> TicketStatusEvent
     \<Rightarrow> (RequestStatus \<times> 'f) list \<times> (string \<times> RequestStatus \<times> datetime) list" where
  "walk_event fl acc ev =
    (case acc of (state_time, last_seen) \<Rightarrow>
      (let tid = ticket_id ev; st = estado ev; t = changed_at ev;
           state_time1 =
             (case map_of last_seen tid of
                None \<Rightarrow> state_time
              | Some (prev_state, prev_t) \<Rightarrow>
                  (if 0 < t - prev_t
                   then add_hours fl prev_state (td_hours fl (t - prev_t)) state_time
                   else state_time))
       in (state_time1, dict_set tid (st, t) last_seen)))"

text \<open>
  The loop over \<open>last.items()\<close>: the last stretch of every ticket, up to \<open>end\<close>. The
  subtraction \<open>end - last_t\<close> raises for an aware \<open>end\<close>.
\<close>

fun close_segments ::
  "'f pyfloat \<Rightarrow> pydatetime \<Rightarrow> (RequestStatus \<times> 'f) list
     \<Rightarrow> (string \<times> RequestStatus \<times> datetime) list \<Rightarrow> error + (RequestStatus \<times> 'f) list" where
  "close_segments fl wend state_time [] = Inr state_time"
| "close_segments fl wend state_time ((tid, st, last_t) # rest) =
     (case minus_naive wend last_t of
        Inl e \<Rightarrow> Inl e
      | Inr d \<Rightarrow>
          close_segments fl wend
            (if 0 < d then add_hours fl st (td_hours fl d) state_time else state_time) rest)"

text \<open>Both passes and the rounding, on the events that were fetched.\<close>

definition state_hours ::
  "'f pyfloat \<Rightarrow> pydatetime \<Rightarrow> TicketStatusEvent list \<Rightarrow> error + (RequestStatus \<times> 'f) list" where
  "state_hours fl wend events =
    (case foldl (walk_event fl) ([], []) events of
       (state_time, last_seen) \<Rightarrow>
         (case close_segments fl wend state_time last_seen of
            Inl e \<Rightarrow> Inl e
          | Inr st \<Rightarrow> Inr (map (\<lambda>(k, v). (k, f_round1 fl v)) st)))"

text \<open>
  The two queries: the ids of the tickets with an event up to \<open>end\<close>, then all events
  of these tickets, those after \<open>end\<close> too, sorted by ticket and time (a stable sort of
  the stored order), at most \<open>fetch_limit\<close> of them (\<open>to_list(200000)\<close>). The store
  compares instants.
\<close>

definition fetch_limit :: nat where
  "fetch_limit = 200000"

definition fetch_events :: "DB \<Rightarrow> datetime \<Rightarrow> TicketStatusEvent list" where
  "fetch_events db wend =
    (let ticket_ids = remdups (map ticket_id
           (filter (\<lambda>e. changed_at e \<le> wend) (ticket_status_events db)))
     in take fetch_limit
          (sort_key (\<lambda>e. (ticket_id e, changed_at e))
             (filter (\<lambda>e. ticket_id e \<in> set ticket_ids) (ticket_status_events db))))"

text \<open>
  The handler, for a caller that the dependency \<open>require_role\<close> let through (the body
  does not use him); the response is \<open>(from, to, hours_by_state)\<close>, an exception that
  is not an \<open>HTTPException\<close> is \<open>ServerError\<close>.
\<close>

definition metrics_time_by_state ::
  "'f pyfloat \<Rightarrow> DB \<Rightarrow> datetime \<Rightarrow> datetime \<Rightarrow> pydatetime option \<Rightarrow> pydatetime option
     \<Rightarrow> error + pydatetime \<times> pydatetime \<times> (RequestStatus \<times> 'f) list" where
  "metrics_time_by_state fl db period_start now date_from date_to =
    (case resolve_range period_start now date_from date_to of
       (start, wend) \<Rightarrow>
         (case state_hours fl wend (fetch_events db (instant wend)) of
            Inl e \<Rightarrow> Inl e
          | Inr totals \<Rightarrow> Inr (start, wend, totals)))"

section \<open>Reachable databases\<close>

text \<open>
  The databases that the request operations produce from one without tickets;
  the collection of users may change in between.
\<close>

inductive reachable :: "DB \<Rightarrow> bool" where
  no_tickets: "requests db = [] \<Longrightarrow> reachable db"
| users_changed: "reachable db \<Longrightarrow> reachable (db\<lparr>users := us\<rparr>)"
| created: "reachable db \<Longrightarrow> reachable (fst (create_request db now stamp new_id cr u))"
| classified: "reachable db \<Longrightarrow> reachable (fst (classify_request db now request_id cp u))"
| assigned: "reachable db \<Longrightarrow> reachable (fst (assign_request db now request_id ap u))"
| unassigned: "reachable db \<Longrightarrow> reachable (fst (unassign_request db now request_id ap u))"
| transitioned:
    "reachable db \<Longrightarrow> reachable (fst (transition_request db now stamp event_id request_id tp u))"
| fed_back: "reachable db \<Longrightarrow> reachable (fst (submit_feedback db stamp request_id fp u))"
| updated:
    "reachable db \<Longrightarrow> reachable (fst (update_request_generic db now stamp event_id request_id ru u))"

section \<open>Sample data\<close>

text \<open>Concrete users, tickets and databases on which the theorems below are run.\<close>

definition sample_user :: "string \<Rightarrow> string \<Rightarrow> User" where
  "sample_user uid r =
     \<lparr>user_id = uid, username = uid, full_name = ''Name of '' @ uid,
      user_department = ''Calidad'', position = ''Especialista'', role = r\<rparr>"

definition sample_doc :: "string \<Rightarrow> jvalue option \<Rightarrow> RequestDoc" where
  "sample_doc rid st =
    \<lparr>d_id = rid, d_title = ''Alertas'', d_description = ''Alertas de stock'',
     d_priority = Media, d_type = Value Mejora, d_channel = Missing, d_level = None,
     d_status = st, d_requester_id = ''u3'', d_requester_name = ''Name of u3'',
     d_department = ''Calidad'', d_assigned_to = None, d_assigned_to_name = None,
     d_assigned_by_id = None, d_assigned_by_name = None, d_estimated_hours = None,
     d_estimated_due = None, d_requested_at = 0, d_created_at = 0, d_updated_at = 0,
     d_completion_date = None, d_state_history = [], d_feedback = None,
     d_rejection_reason = None, d_review_evidence = None, d_reabierto_count = 0\<rparr>"

definition sample_db :: "RequestDoc list \<Rightarrow> DB" where
  "sample_db docs =
     \<lparr>requests = docs, ticket_status_events = [],
      users = [sample_user ''u1'' ''admin'', sample_user ''u2'' ''support'',
               sample_user ''u3'' ''employee'']\<rparr>"

definition sample_update :: "RequestStatus \<Rightarrow> RequestUpdate" where
  "sample_update s = \<lparr>ru_status = Some (Some s), ru_assigned_to = None,
     ru_estimated_hours = None, ru_estimated_due = None\<rparr>"

definition sample_create :: RequestCreate where
  "sample_create = \<lparr>rc_title = ''Alertas'', rc_description = ''Alertas de stock'',
     rc_priority = Media, rc_type = Mejora, rc_channel = None, rc_requested_at = None,
     rc_level = None, rc_assigned_to = None, rc_estimated_hours = None,
     rc_estimated_due = None\<rparr>"

definition sample_transition :: "RequestStatus \<Rightarrow> string option \<Rightarrow> string option \<Rightarrow> TransitionPayload" where
  "sample_transition to c l = \<lparr>tp_to_status = to, tp_comment = c, tp_evidence_link = l\<rparr>"

definition sample_event :: "string \<Rightarrow> RequestStatus \<Rightarrow> datetime \<Rightarrow> TicketStatusEvent" where
  "sample_event tid st t =
     \<lparr>tse_id = ''e'', ticket_id = tid, estado = st, changed_by = ''u2'', changed_at = t\<rparr>"

definition hour :: int where
  "hour = 3600000000"

text \<open>
  One ticket: \<open>Pendiente\<close> at \<open>t0\<close>, \<open>En_progreso\<close> two hours later, \<open>Finalizada\<close> five
  hours after \<open>t0\<close>.
\<close>

definition sample_log :: "datetime \<Rightarrow> TicketStatusEvent list" where
  "sample_log t0 =
     [sample_event ''T1'' Pendiente t0,
      sample_event ''T1'' En_progreso (t0 + 2 * hour),
      sample_event ''T1'' Finalizada (t0 + 5 * hour)]"

definition log_db :: "TicketStatusEvent list \<Rightarrow> DB" where
  "log_db events = \<lparr>requests = [], ticket_status_events = events, users = []\<rparr>"

text \<open>
  A float parameter without content, for running the handler where the outcome does
  not depend on the arithmetic.
\<close>

definition no_float :: "unit pyfloat" where
  "no_float = \<lparr>td_hours = (\<lambda>d. ()), f_add = (\<lambda>a b. ()), f_zero = (), f_round1 = (\<lambda>v. ())\<rparr>"

text \<open>The invariant: every stored ticket has \<open>reabierto_count = 0\<close>.\<close>

definition count_zero :: "DB \<Rightarrow> bool" where
  "count_zero db \<longleftrightarrow> (\<forall>d\<in>set (requests db). d_reabierto_count d = 0)"

section \<open>Basic facts\<close>

lemma find_update_first:
  "find (\<lambda>d. d_id d = rid) ds = Some doc \<Longrightarrow> d_id (f doc) = rid \<Longrightarrow>
   find (\<lambda>d. d_id d = rid) (update_first rid f ds) = Some (f doc)"
  by (induction ds) (auto split: if_splits)

lemma find_request_id: "find_request db rid = Some doc \<Longrightarrow> d_id doc = rid"
  by (auto simp: find_request_def find_Some_iff)

lemma label_not_synonym: "map_of STATUS_SYNONYMS (label s) = None"
  by (cases s) (simp_all add: STATUS_SYNONYMS_def)

lemma label_valid: "label s \<in> VALID_STATUSES"
  by (cases s) (simp_all add: VALID_STATUSES_def)

lemma parse_status_label: "parse_status (Some (JStr (label s))) = Some s"
  by (cases s) (simp_all add: parse_status_def)

lemma valid_is_label: "s \<in> VALID_STATUSES \<Longrightarrow> \<exists>st. s = label st"
  unfolding VALID_STATUSES_def
  by (metis insertE label.simps singletonD)

lemma normalize_status_valid: "in_valid_statuses (normalize_status v)"
  by (cases "in_valid_statuses (with_synonym v)")
    (simp_all add: normalize_status_def VALID_STATUSES_def)

lemma normalize_d_status [simp]:
  "d_status (normalize_request_doc d) = Some (normalize_status (d_status d))"
  by (simp add: normalize_request_doc_def)

lemma normalize_d_type:
  "d_type (normalize_request_doc d) = (case d_type d of Missing \<Rightarrow> Value Soporte | e \<Rightarrow> e)"
  "d_channel (normalize_request_doc d) = (case d_channel d of Missing \<Rightarrow> Value Sistema | e \<Rightarrow> e)"
  by (simp_all add: normalize_request_doc_def)

lemma parse_normalized: "\<exists>st. parse_status (Some (normalize_status v)) = Some st"
proof -
  obtain s where "normalize_status v = JStr s" "s \<in> VALID_STATUSES"
    using normalize_status_valid [of v] by (cases "normalize_status v") auto
  then show ?thesis
    using valid_is_label parse_status_label by metis
qed

lemma to_request_None_iff:
  "to_request doc = None \<longleftrightarrow> d_type doc = Null \<or> d_channel doc = Null"
proof -
  obtain st where "parse_status (Some (normalize_status (d_status doc))) = Some st"
    using parse_normalized by blast
  then show ?thesis
    by (cases "d_type doc"; cases "d_channel doc")
      (simp_all add: to_request_def build_request_def normalize_d_type)
qed

lemma to_request_total:
  "d_type doc \<noteq> Null \<Longrightarrow> d_channel doc \<noteq> Null \<Longrightarrow> \<exists>r. to_request doc = Some r"
  using to_request_None_iff [of doc] by (cases "to_request doc") auto

lemma to_request_nonnull:
  "to_request doc = Some r \<Longrightarrow> d_type doc \<noteq> Null \<and> d_channel doc \<noteq> Null"
  using to_request_None_iff [of doc] by auto

lemma normalize_label: "normalize_status (Some (JStr (label s))) = JStr (label s)"
  using label_valid [of s]
  by (simp add: normalize_status_def with_synonym_def label_not_synonym)

lemma to_request_shape:
  assumes "to_request d = Some r"
  shows "\<exists>st ty ch. parse_status (Some (normalize_status (d_status d))) = Some st \<and>
     r = request_of (normalize_request_doc d) st ty ch"
  using assms
  by (auto simp: to_request_def build_request_def split: option.splits entry.splits)

lemma request_of_sel [simp]:
  "r_id (request_of d st ty ch) = d_id d"
  "status (request_of d st ty ch) = st"
  "rejection_reason (request_of d st ty ch) = d_rejection_reason d"
  "completion_date (request_of d st ty ch) = d_completion_date d"
  "review_evidence (request_of d st ty ch) = d_review_evidence d"
  "state_history (request_of d st ty ch) = d_state_history d"
  "reabierto_count (request_of d st ty ch) = d_reabierto_count d"
  "assigned_to (request_of d st ty ch) = d_assigned_to d"
  "assigned_to_name (request_of d st ty ch) = d_assigned_to_name d"
  "estimated_hours (request_of d st ty ch) = d_estimated_hours d"
  "estimated_due (request_of d st ty ch) = d_estimated_due d"
  "updated_at (request_of d st ty ch) = d_updated_at d"
  "feedback (request_of d st ty ch) = d_feedback d"
  "requester_id (request_of d st ty ch) = d_requester_id d"
  "level (request_of d st ty ch) = d_level d"
  "priority (request_of d st ty ch) = d_priority d"
  by (simp_all add: request_of_def)

lemma normalize_sel [simp]:
  "d_id (normalize_request_doc d) = d_id d"
  "d_rejection_reason (normalize_request_doc d) = d_rejection_reason d"
  "d_completion_date (normalize_request_doc d) = d_completion_date d"
  "d_review_evidence (normalize_request_doc d) = d_review_evidence d"
  "d_state_history (normalize_request_doc d) = d_state_history d"
  "d_reabierto_count (normalize_request_doc d) = d_reabierto_count d"
  "d_assigned_to (normalize_request_doc d) = d_assigned_to d"
  "d_assigned_to_name (normalize_request_doc d) = d_assigned_to_name d"
  "d_estimated_hours (normalize_request_doc d) = d_estimated_hours d"
  "d_estimated_due (normalize_request_doc d) = d_estimated_due d"
  "d_updated_at (normalize_request_doc d) = d_updated_at d"
  "d_feedback (normalize_request_doc d) = d_feedback d"
  "d_requester_id (normalize_request_doc d) = d_requester_id d"
  "d_level (normalize_request_doc d) = d_level d"
  "d_priority (normalize_request_doc d) = d_priority d"
  by (simp_all add: normalize_request_doc_def)

lemma to_request_fields:
  assumes "to_request d = Some r"
  shows "r_id r = d_id d" "rejection_reason r = d_rejection_reason d"
    "completion_date r = d_completion_date d" "review_evidence r = d_review_evidence d"
    "state_history r = d_state_history d" "reabierto_count r = d_reabierto_count d"
    "assigned_to r = d_assigned_to d" "assigned_to_name r = d_assigned_to_name d"
    "estimated_hours r = d_estimated_hours d" "estimated_due r = d_estimated_due d"
    "updated_at r = d_updated_at d" "feedback r = d_feedback d"
    "requester_id r = d_requester_id d" "level r = d_level d" "priority r = d_priority d"
  using to_request_shape [OF assms] by auto

lemma to_request_status:
  "d_status d = Some (JStr (label s)) \<Longrightarrow> to_request d = Some r \<Longrightarrow> status r = s"
  using to_request_shape [of d r] by (auto simp: normalize_label parse_status_label)

lemma update_first_split:
  "find (\<lambda>d. d_id d = rid) ds = Some doc \<Longrightarrow>
   \<exists>pre post. ds = pre @ doc # post \<and> (\<forall>d\<in>set pre. d_id d \<noteq> rid)
      \<and> update_first rid f ds = pre @ f doc # post"
proof (induction ds)
  case Nil
  then show ?case by simp
next
  case (Cons a ds)
  show ?case
  proof (cases "d_id a = rid")
    case True
    with Cons.prems have "a = doc" by simp
    with True show ?thesis by (intro exI [of _ "[]"] exI [of _ ds]) simp
  next
    case False
    with Cons obtain pre post where
      "ds = pre @ doc # post" "\<forall>d\<in>set pre. d_id d \<noteq> rid"
      "update_first rid f ds = pre @ f doc # post" by auto
    with False show ?thesis by (intro exI [of _ "a # pre"] exI [of _ post]) simp
  qed
qed

lemma transition_ops_id: "d_id (transition_ops current p u now stamp d) = d_id d"
  by (simp add: transition_ops_def Let_def)

lemma reload_updated:
  assumes "find_request db rid = Some doc" and "d_id (f doc) = rid"
    and "requests db1 = update_first rid f (requests db)"
    and "d_type (f doc) \<noteq> Null" and "d_channel (f doc) \<noteq> Null"
  shows "\<exists>r. reload db1 rid = (db1, Inr r) \<and> to_request (f doc) = Some r"
proof -
  have "find_request db1 rid = Some (f doc)"
    using assms(1-3) by (simp add: find_request_def find_update_first)
  moreover obtain r where "to_request (f doc) = Some r"
    using to_request_total [OF assms(4,5)] by blast
  ultimately show ?thesis by (simp add: reload_def)
qed

lemma transition_ops_entries:
  "d_type (transition_ops current p u now stamp d) = d_type d"
  "d_channel (transition_ops current p u now stamp d) = d_channel d"
  by (simp_all add: transition_ops_def Let_def)

lemma transition_request_ok:
  assumes f: "find_request db rid = Some doc" and c: "to_request doc = Some current"
    and a: "tp_to_status p \<in> ALLOWED_TRANSITIONS (status current)"
    and rj: "tp_to_status p = Rechazada \<longrightarrow> \<not> blank (tp_comment p)"
    and rv: "tp_to_status p = En_revision \<longrightarrow>
        (Some (user_id u) \<in> {d_assigned_to doc, d_assigned_by_id doc} \<or> role u = ''admin'')
        \<and> \<not> blank (tp_evidence_link p)"
  shows "\<exists>r. transition_request db now stamp eid rid p u =
      (db\<lparr>requests := update_first rid (transition_ops current p u now stamp) (requests db),
          ticket_status_events := ticket_status_events db @
            [\<lparr>tse_id = eid, ticket_id = rid, estado = tp_to_status p,
              changed_by = user_id u, changed_at = now\<rparr>]\<rparr>, Inr r)
      \<and> to_request (transition_ops current p u now stamp doc) = Some r"
proof -
  let ?f = "transition_ops current p u now stamp"
  let ?db1 = "update_request db rid ?f"
  let ?db2 = "?db1\<lparr>ticket_status_events := ticket_status_events ?db1 @
            [\<lparr>tse_id = eid, ticket_id = rid, estado = tp_to_status p,
              changed_by = user_id u, changed_at = now\<rparr>]\<rparr>"
  have id: "d_id (?f doc) = rid"
    using find_request_id [OF f] by (simp add: transition_ops_id)
  have "requests ?db2 = update_first rid ?f (requests db)"
    by (simp add: update_request_def)
  moreover have "d_type (?f doc) \<noteq> Null" "d_channel (?f doc) \<noteq> Null"
    using to_request_nonnull [OF c] by (simp_all add: transition_ops_entries)
  ultimately obtain r where
    r: "reload ?db2 rid = (?db2, Inr r)" "to_request (?f doc) = Some r"
    using reload_updated [of db rid doc ?f ?db2, OF f id] by blast
  have "transition_request db now stamp eid rid p u = reload ?db2 rid"
    using f c a rj rv by (auto simp: transition_request_def ensure_transition_def Let_def)
  with r show ?thesis by (simp add: update_request_def)
qed

lemma transition_request_invalid:
  assumes f: "find_request db rid = Some doc" and c: "to_request doc = Some current"
    and a: "tp_to_status p \<notin> ALLOWED_TRANSITIONS (status current)"
  shows "transition_request db now stamp eid rid p u = (db, Inl InvalidTransition)"
  using assms by (simp add: transition_request_def ensure_transition_def)

lemma transition_request_InrD:
  assumes f: "find_request db rid = Some doc" and c: "to_request doc = Some current"
    and r: "transition_request db now stamp eid rid p u = (db', Inr r)"
  shows "tp_to_status p \<in> ALLOWED_TRANSITIONS (status current)"
    "tp_to_status p = Rechazada \<longrightarrow> \<not> blank (tp_comment p)"
    "tp_to_status p = En_revision \<longrightarrow>
        (Some (user_id u) \<in> {d_assigned_to doc, d_assigned_by_id doc} \<or> role u = ''admin'')
        \<and> \<not> blank (tp_evidence_link p)"
  using r f c
  by (auto simp: transition_request_def ensure_transition_def split: if_splits)

lemma not_blankD: "\<not> blank s \<Longrightarrow> \<exists>c. s = Some c"
  by (cases s) (simp_all add: blank_def)

lemma sample_doc_find: "find_request (sample_db [sample_doc rid st]) rid = Some (sample_doc rid st)"
  by (simp add: find_request_def sample_db_def sample_doc_def)

lemma sample_doc_entries [simp]:
  "d_type (sample_doc rid st) = Value Mejora"
  "d_channel (sample_doc rid st) = Missing"
  "d_status (sample_doc rid st) = st"
  "d_id (sample_doc rid st) = rid"
  by (simp_all add: sample_doc_def)

lemma sample_doc_read:
  "to_request (sample_doc rid (Some (JStr (label s)))) =
     Some (request_of (normalize_request_doc (sample_doc rid (Some (JStr (label s))))) s Mejora Sistema)"
  by (simp add: to_request_def build_request_def normalize_d_type normalize_label
      parse_status_label)

lemma transition_ops_fields:
  "d_status (transition_ops current p u now stamp d) = Some (JStr (label (tp_to_status p)))"
  "d_updated_at (transition_ops current p u now stamp d) = now"
  "d_completion_date (transition_ops current p u now stamp d) =
     (if tp_to_status p \<in> {Finalizada, Rechazada} then Some now else d_completion_date d)"
  "d_rejection_reason (transition_ops current p u now stamp d) =
     (if tp_to_status p = Rechazada then map_option strip (tp_comment p)
      else d_rejection_reason d)"
  "d_review_evidence (transition_ops current p u now stamp d) =
     (if tp_to_status p = En_revision
      then map_option (\<lambda>l. \<lparr>re_type = ''link'', re_url = strip l,
                              re_by = user_id u, re_at = now\<rparr>) (tp_evidence_link p)
      else d_review_evidence d)"
  "d_state_history (transition_ops current p u now stamp d) = d_state_history d @
     [\<lparr>from_status = Some (status current), to_status = tp_to_status p, ev_at = stamp,
       by_user_id = user_id u, by_user_name = full_name u\<rparr>]"
  by (simp_all add: transition_ops_def Let_def)

lemma transition_request_stored:
  assumes f: "find_request db rid = Some doc" and c: "to_request doc = Some current"
    and a: "tp_to_status p \<in> ALLOWED_TRANSITIONS (status current)"
    and rj: "tp_to_status p = Rechazada \<longrightarrow> \<not> blank (tp_comment p)"
    and rv: "tp_to_status p = En_revision \<longrightarrow>
        (Some (user_id u) \<in> {d_assigned_to doc, d_assigned_by_id doc} \<or> role u = ''admin'')
        \<and> \<not> blank (tp_evidence_link p)"
  shows "\<exists>db' r pre post doc'.
       transition_request db now stamp eid rid p u = (db', Inr r)
     \<and> doc' = transition_ops current p u now stamp doc
     \<and> requests db = pre @ doc # post \<and> requests db' = pre @ doc' # post
     \<and> find_request db' rid = Some doc' \<and> to_request doc' = Some r
     \<and> ticket_status_events db' = ticket_status_events db @
           [\<lparr>tse_id = eid, ticket_id = rid, estado = tp_to_status p,
             changed_by = user_id u, changed_at = now\<rparr>]
     \<and> users db' = users db"
proof -
  define g where "g = transition_ops current p u now stamp"
  define db' where "db' = db\<lparr>requests := update_first rid g (requests db),
          ticket_status_events := ticket_status_events db @
            [\<lparr>tse_id = eid, ticket_id = rid, estado = tp_to_status p,
              changed_by = user_id u, changed_at = now\<rparr>]\<rparr>"
  from transition_request_ok [OF f c a rj rv, of now stamp eid]
  obtain r where r: "transition_request db now stamp eid rid p u = (db', Inr r)"
    "to_request (g doc) = Some r"
    unfolding g_def db'_def by blast
  from f obtain pre post where sp: "requests db = pre @ doc # post"
    "update_first rid g (requests db) = pre @ g doc # post"
    using update_first_split [of rid "requests db" doc g] by (auto simp: find_request_def)
  have id: "d_id (g doc) = rid"
    using find_request_id [OF f] by (simp add: g_def transition_ops_id)
  have fd: "find_request db' rid = Some (g doc)"
    using f id by (simp add: db'_def find_request_def find_update_first)
  have "requests db' = pre @ g doc # post"
    "ticket_status_events db' = ticket_status_events db @
           [\<lparr>tse_id = eid, ticket_id = rid, estado = tp_to_status p,
             changed_by = user_id u, changed_at = now\<rparr>]"
    "users db' = users db"
    by (simp_all add: db'_def sp(2))
  with r sp(1) fd show ?thesis
    unfolding g_def by blast
qed

lemma single_split: "[d] = pre @ d' # post \<Longrightarrow> pre = [] \<and> post = [] \<and> d' = d"
  by (cases pre) simp_all

section \<open>Rejection needs a reason\<close>

text \<open>
  C6. For a ticket that is read as \<open>Pendiente\<close> and a transition request to
  \<open>Rechazada\<close>: without a comment, or with a blank one, the handler raises the 422
  \<open>ValidationError\<close> and the database stays as it was; with a non-blank comment it
  succeeds. Then the ticket as stored afterwards has the status \<open>Rechazada\<close>, the
  stripped comment as \<open>rejection_reason\<close>, \<open>now\<close> as \<open>completion_date\<close> and as
  \<open>updated_at\<close>, and one more \<open>StateEvent\<close> in its history; no other document changes,
  the Event Log has one more record, and the response shows the same status, reason
  and completion date. For any successful transition \<open>completion_date\<close> is written (to
  \<open>now\<close>), in the store and in the response, exactly when the target is \<open>Finalizada\<close>
  or \<open>Rechazada\<close>, and is left as stored otherwise.
\<close>

theorem reject_requires_comment:
  assumes f: "find_request db rid = Some doc" and c: "to_request doc = Some current"
  shows "(status current = Pendiente \<and> tp_to_status p = Rechazada \<longrightarrow>
           (blank (tp_comment p) \<longrightarrow>
              transition_request db now stamp eid rid p u = (db, Inl ValidationError)) \<and>
           (\<not> blank (tp_comment p) \<longrightarrow>
              (\<exists>db' r cm pre post doc'.
                   transition_request db now stamp eid rid p u = (db', Inr r)
                 \<and> tp_comment p = Some cm \<and> status r = Rechazada
                 \<and> rejection_reason r = Some (strip cm)
                 \<and> completion_date r = Some now
                 \<and> requests db = pre @ doc # post \<and> requests db' = pre @ doc' # post
                 \<and> find_request db' rid = Some doc'
                 \<and> d_status doc' = Some (JStr ''Rechazada'')
                 \<and> d_rejection_reason doc' = Some (strip cm)
                 \<and> d_completion_date doc' = Some now
                 \<and> d_updated_at doc' = now
                 \<and> d_state_history doc' = d_state_history doc @
                      [\<lparr>from_status = Some Pendiente, to_status = Rechazada, ev_at = stamp,
                        by_user_id = user_id u, by_user_name = full_name u\<rparr>]
                 \<and> ticket_status_events db' = ticket_status_events db @
                      [\<lparr>tse_id = eid, ticket_id = rid, estado = Rechazada,
                        changed_by = user_id u, changed_at = now\<rparr>]
                 \<and> users db' = users db)))
       \<and> (\<forall>db' r. transition_request db now stamp eid rid p u = (db', Inr r) \<longrightarrow>
             completion_date r =
               (if tp_to_status p \<in> {Finalizada, Rechazada} then Some now
                else d_completion_date doc)
             \<and> (\<exists>doc'. find_request db' rid = Some doc'
                   \<and> d_completion_date doc' =
                       (if tp_to_status p \<in> {Finalizada, Rechazada} then Some now
                        else d_completion_date doc)))"
proof (intro conjI impI allI)
  assume "status current = Pendiente \<and> tp_to_status p = Rechazada" "blank (tp_comment p)"
  then show "transition_request db now stamp eid rid p u = (db, Inl ValidationError)"
    using f c by (simp add: transition_request_def ensure_transition_def)
next
  assume a: "status current = Pendiente \<and> tp_to_status p = Rechazada"
    and nb: "\<not> blank (tp_comment p)"
  from nb obtain cm where cm: "tp_comment p = Some cm" using not_blankD by blast
  from a nb transition_request_stored [OF f c, of p u now stamp eid]
  obtain db' r pre post doc' where
    k: "transition_request db now stamp eid rid p u = (db', Inr r)"
      "doc' = transition_ops current p u now stamp doc"
      "requests db = pre @ doc # post" "requests db' = pre @ doc' # post"
      "find_request db' rid = Some doc'" "to_request doc' = Some r"
      "ticket_status_events db' = ticket_status_events db @
           [\<lparr>tse_id = eid, ticket_id = rid, estado = tp_to_status p,
             changed_by = user_id u, changed_at = now\<rparr>]"
      "users db' = users db"
    by auto
  have d: "d_status doc' = Some (JStr (label Rechazada))"
    "d_rejection_reason doc' = Some (strip cm)"
    "d_completion_date doc' = Some now" "d_updated_at doc' = now"
    "d_state_history doc' = d_state_history doc @
                      [\<lparr>from_status = Some Pendiente, to_status = Rechazada, ev_at = stamp,
                        by_user_id = user_id u, by_user_name = full_name u\<rparr>]"
    using a cm unfolding k(2) by (simp_all add: transition_ops_fields)
  have r: "status r = Rechazada" "rejection_reason r = Some (strip cm)"
    "completion_date r = Some now"
    using to_request_status [OF d(1) k(6)] to_request_fields [OF k(6)] d by simp_all
  have "transition_request db now stamp eid rid p u = (db', Inr r)
                 \<and> tp_comment p = Some cm \<and> status r = Rechazada
                 \<and> rejection_reason r = Some (strip cm)
                 \<and> completion_date r = Some now
                 \<and> requests db = pre @ doc # post \<and> requests db' = pre @ doc' # post
                 \<and> find_request db' rid = Some doc'
                 \<and> d_status doc' = Some (JStr ''Rechazada'')
                 \<and> d_rejection_reason doc' = Some (strip cm)
                 \<and> d_completion_date doc' = Some now
                 \<and> d_updated_at doc' = now
                 \<and> d_state_history doc' = d_state_history doc @
                      [\<lparr>from_status = Some Pendiente, to_status = Rechazada, ev_at = stamp,
                        by_user_id = user_id u, by_user_name = full_name u\<rparr>]
                 \<and> ticket_status_events db' = ticket_status_events db @
                      [\<lparr>tse_id = eid, ticket_id = rid, estado = Rechazada,
                        changed_by = user_id u, changed_at = now\<rparr>]
                 \<and> users db' = users db"
    using k(1,3,4,5,7,8) cm d r a by simp
  then show "\<exists>db' r cm pre post doc'.
                   transition_request db now stamp eid rid p u = (db', Inr r)
                 \<and> tp_comment p = Some cm \<and> status r = Rechazada
                 \<and> rejection_reason r = Some (strip cm)
                 \<and> completion_date r = Some now
                 \<and> requests db = pre @ doc # post \<and> requests db' = pre @ doc' # post
                 \<and> find_request db' rid = Some doc'
                 \<and> d_status doc' = Some (JStr ''Rechazada'')
                 \<and> d_rejection_reason doc' = Some (strip cm)
                 \<and> d_completion_date doc' = Some now
                 \<and> d_updated_at doc' = now
                 \<and> d_state_history doc' = d_state_history doc @
                      [\<lparr>from_status = Some Pendiente, to_status = Rechazada, ev_at = stamp,
                        by_user_id = user_id u, by_user_name = full_name u\<rparr>]
                 \<and> ticket_status_events db' = ticket_status_events db @
                      [\<lparr>tse_id = eid, ticket_id = rid, estado = Rechazada,
                        changed_by = user_id u, changed_at = now\<rparr>]
                 \<and> users db' = users db"
    by blast
next
  fix db' r
  assume t: "transition_request db now stamp eid rid p u = (db', Inr r)"
  note g = transition_request_InrD [OF f c t]
  from transition_request_stored [OF f c g, of now stamp eid] t
  obtain doc' where k: "doc' = transition_ops current p u now stamp doc"
    "find_request db' rid = Some doc'" "to_request doc' = Some r"
    by auto
  have d: "d_completion_date doc' =
      (if tp_to_status p \<in> {Finalizada, Rechazada} then Some now else d_completion_date doc)"
    unfolding k(1) by (rule transition_ops_fields)
  from to_request_fields(3) [OF k(3)] d
  show "completion_date r =
               (if tp_to_status p \<in> {Finalizada, Rechazada} then Some now
                else d_completion_date doc)"
    by simp
  from d k(2)
  show "\<exists>doc'. find_request db' rid = Some doc'
                   \<and> d_completion_date doc' =
                       (if tp_to_status p \<in> {Finalizada, Rechazada} then Some now
                        else d_completion_date doc)"
    by blast
qed

theorem reject_requires_comment_witness:
  "transition_request (sample_db [sample_doc ''t1'' (Some (JStr ''Pendiente''))]) 5000 6000 ''e1'' ''t1''
       (sample_transition Rechazada None None) (sample_user ''u2'' ''support'')
     = (sample_db [sample_doc ''t1'' (Some (JStr ''Pendiente''))], Inl ValidationError)
   \<and> (\<exists>db' r d. transition_request (sample_db [sample_doc ''t1'' (Some (JStr ''Pendiente''))])
          5000 6000 ''e1'' ''t1'' (sample_transition Rechazada (Some '' duplicada '') None)
          (sample_user ''u2'' ''support'') = (db', Inr r)
        \<and> status r = Rechazada \<and> rejection_reason r = Some ''duplicada''
        \<and> completion_date r = Some 5000
        \<and> requests db' = [d] \<and> d_status d = Some (JStr ''Rechazada'')
        \<and> d_rejection_reason d = Some ''duplicada'' \<and> d_completion_date d = Some 5000
        \<and> ticket_status_events db' =
             [\<lparr>tse_id = ''e1'', ticket_id = ''t1'', estado = Rechazada,
               changed_by = ''u2'', changed_at = 5000\<rparr>])"
proof -
  note f = sample_doc_find [of "''t1''" "Some (JStr (label Pendiente))"]
  note c = sample_doc_read [of "''t1''" Pendiente]
  have s: "strip '' duplicada '' = ''duplicada''"
    by (simp add: strip_def is_space_def)
  have rq: "requests (sample_db [sample_doc ''t1'' (Some (JStr ''Pendiente''))])
      = [sample_doc ''t1'' (Some (JStr ''Pendiente''))]"
    "ticket_status_events (sample_db [sample_doc ''t1'' (Some (JStr ''Pendiente''))]) = []"
    by (simp_all add: sample_db_def)
  have u: "user_id (sample_user ''u2'' ''support'') = ''u2''"
    by (simp add: sample_user_def)
  show ?thesis
    using reject_requires_comment [OF f c, of "sample_transition Rechazada None None" 5000 6000 "''e1''"
        "sample_user ''u2'' ''support''"]
      reject_requires_comment [OF f c, of "sample_transition Rechazada (Some '' duplicada '') None"
        5000 6000 "''e1''" "sample_user ''u2'' ''support''"]
    by (auto simp: sample_transition_def blank_def s rq u dest!: single_split)
qed

section \<open>Sending to review\<close>

text \<open>
  C5, as amended. For a ticket that is read as \<open>En_progreso\<close> and a transition request
  to \<open>En_revision\<close>: the handler checks the permission first, so an actor who is
  neither the assignee, nor the one who assigned, nor an admin gets the 403
  \<open>Forbidden\<close> whatever the evidence link is; a permitted actor without a link, or with
  a blank one, gets the 422 \<open>ValidationError\<close>; in both cases the database stays as it
  was. A permitted actor with a non-blank link succeeds: the ticket as stored
  afterwards has the status of the label ``in review'', \<open>review_evidence\<close> with the
  stripped link, the actor's id and \<open>now\<close>, \<open>updated_at = now\<close>, its \<open>completion_date\<close>
  untouched and one more \<open>StateEvent\<close>; no other document changes, the Event Log has one
  more record, and the response shows the same status and evidence.
  The counterexample is an actor without permission who sends no link: the answer is
  \<open>Forbidden\<close>, not \<open>ValidationError\<close>.
\<close>

theorem review_needs_evidence_and_permission:
  assumes f: "find_request db rid = Some doc" and c: "to_request doc = Some current"
    and s: "status current = En_progreso" and t: "tp_to_status p = En_revision"
  shows "(\<not> (Some (user_id u) \<in> {d_assigned_to doc, d_assigned_by_id doc} \<or> role u = ''admin'') \<longrightarrow>
            transition_request db now stamp eid rid p u = (db, Inl Forbidden))
       \<and> ((Some (user_id u) \<in> {d_assigned_to doc, d_assigned_by_id doc} \<or> role u = ''admin'')
            \<and> blank (tp_evidence_link p) \<longrightarrow>
            transition_request db now stamp eid rid p u = (db, Inl ValidationError))
       \<and> ((Some (user_id u) \<in> {d_assigned_to doc, d_assigned_by_id doc} \<or> role u = ''admin'')
            \<and> \<not> blank (tp_evidence_link p) \<longrightarrow>
            (\<exists>db' r l pre post doc'.
                 transition_request db now stamp eid rid p u = (db', Inr r)
               \<and> tp_evidence_link p = Some l \<and> status r = En_revision
               \<and> review_evidence r = Some \<lparr>re_type = ''link'', re_url = strip l,
                                             re_by = user_id u, re_at = now\<rparr>
               \<and> requests db = pre @ doc # post \<and> requests db' = pre @ doc' # post
               \<and> find_request db' rid = Some doc'
               \<and> d_status doc' = Some (JStr (''En revisi'' @ [CHR 0xF3] @ ''n''))
               \<and> d_review_evidence doc' = Some \<lparr>re_type = ''link'', re_url = strip l,
                                                   re_by = user_id u, re_at = now\<rparr>
               \<and> d_updated_at doc' = now
               \<and> d_completion_date doc' = d_completion_date doc
               \<and> d_state_history doc' = d_state_history doc @
                    [\<lparr>from_status = Some En_progreso, to_status = En_revision, ev_at = stamp,
                      by_user_id = user_id u, by_user_name = full_name u\<rparr>]
               \<and> ticket_status_events db' = ticket_status_events db @
                    [\<lparr>tse_id = eid, ticket_id = rid, estado = En_revision,
                      changed_by = user_id u, changed_at = now\<rparr>]
               \<and> users db' = users db))"
proof (intro conjI impI)
  assume "\<not> (Some (user_id u) \<in> {d_assigned_to doc, d_assigned_by_id doc} \<or> role u = ''admin'')"
  then show "transition_request db now stamp eid rid p u = (db, Inl Forbidden)"
    using f c s t by (simp add: transition_request_def ensure_transition_def)
next
  assume "(Some (user_id u) \<in> {d_assigned_to doc, d_assigned_by_id doc} \<or> role u = ''admin'')
            \<and> blank (tp_evidence_link p)"
  then show "transition_request db now stamp eid rid p u = (db, Inl ValidationError)"
    using f c s t by (auto simp: transition_request_def ensure_transition_def)
next
  assume a: "(Some (user_id u) \<in> {d_assigned_to doc, d_assigned_by_id doc} \<or> role u = ''admin'')
            \<and> \<not> blank (tp_evidence_link p)"
  then obtain l where l: "tp_evidence_link p = Some l" using not_blankD by blast
  from a s t transition_request_stored [OF f c, of p u now stamp eid]
  obtain db' r pre post doc' where
    k: "transition_request db now stamp eid rid p u = (db', Inr r)"
      "doc' = transition_ops current p u now stamp doc"
      "requests db = pre @ doc # post" "requests db' = pre @ doc' # post"
      "find_request db' rid = Some doc'" "to_request doc' = Some r"
      "ticket_status_events db' = ticket_status_events db @
           [\<lparr>tse_id = eid, ticket_id = rid, estado = tp_to_status p,
             changed_by = user_id u, changed_at = now\<rparr>]"
      "users db' = users db"
    by auto
  have d: "d_status doc' = Some (JStr (label En_revision))"
    "d_review_evidence doc' = Some \<lparr>re_type = ''link'', re_url = strip l,
                                       re_by = user_id u, re_at = now\<rparr>"
    "d_updated_at doc' = now" "d_completion_date doc' = d_completion_date doc"
    "d_state_history doc' = d_state_history doc @
                    [\<lparr>from_status = Some En_progreso, to_status = En_revision, ev_at = stamp,
                      by_user_id = user_id u, by_user_name = full_name u\<rparr>]"
    using s t l unfolding k(2) by (simp_all add: transition_ops_fields)
  have r: "status r = En_revision"
    "review_evidence r = Some \<lparr>re_type = ''link'', re_url = strip l,
                                 re_by = user_id u, re_at = now\<rparr>"
    using to_request_status [OF d(1) k(6)] to_request_fields(4) [OF k(6)] d by simp_all
  have "transition_request db now stamp eid rid p u = (db', Inr r)
               \<and> tp_evidence_link p = Some l \<and> status r = En_revision
               \<and> review_evidence r = Some \<lparr>re_type = ''link'', re_url = strip l,
                                             re_by = user_id u, re_at = now\<rparr>
               \<and> requests db = pre @ doc # post \<and> requests db' = pre @ doc' # post
               \<and> find_request db' rid = Some doc'
               \<and> d_status doc' = Some (JStr (''En revisi'' @ [CHR 0xF3] @ ''n''))
               \<and> d_review_evidence doc' = Some \<lparr>re_type = ''link'', re_url = strip l,
                                                   re_by = user_id u, re_at = now\<rparr>
               \<and> d_updated_at doc' = now
               \<and> d_completion_date doc' = d_completion_date doc
               \<and> d_state_history doc' = d_state_history doc @
                    [\<lparr>from_status = Some En_progreso, to_status = En_revision, ev_at = stamp,
                      by_user_id = user_id u, by_user_name = full_name u\<rparr>]
               \<and> ticket_status_events db' = ticket_status_events db @
                    [\<lparr>tse_id = eid, ticket_id = rid, estado = En_revision,
                      changed_by = user_id u, changed_at = now\<rparr>]
               \<and> users db' = users db"
    using k(1,3,4,5,7,8) l d r t by simp
  then show "\<exists>db' r l pre post doc'.
                 transition_request db now stamp eid rid p u = (db', Inr r)
               \<and> tp_evidence_link p = Some l \<and> status r = En_revision
               \<and> review_evidence r = Some \<lparr>re_type = ''link'', re_url = strip l,
                                             re_by = user_id u, re_at = now\<rparr>
               \<and> requests db = pre @ doc # post \<and> requests db' = pre @ doc' # post
               \<and> find_request db' rid = Some doc'
               \<and> d_status doc' = Some (JStr (''En revisi'' @ [CHR 0xF3] @ ''n''))
               \<and> d_review_evidence doc' = Some \<lparr>re_type = ''link'', re_url = strip l,
                                                   re_by = user_id u, re_at = now\<rparr>
               \<and> d_updated_at doc' = now
               \<and> d_completion_date doc' = d_completion_date doc
               \<and> d_state_history doc' = d_state_history doc @
                    [\<lparr>from_status = Some En_progreso, to_status = En_revision, ev_at = stamp,
                      by_user_id = user_id u, by_user_name = full_name u\<rparr>]
               \<and> ticket_status_events db' = ticket_status_events db @
                    [\<lparr>tse_id = eid, ticket_id = rid, estado = En_revision,
                      changed_by = user_id u, changed_at = now\<rparr>]
               \<and> users db' = users db"
    by blast
qed

theorem review_needs_evidence_and_permission_witness:
  "transition_request (sample_db [sample_doc ''t1'' (Some (JStr ''En progreso''))]) 5000 6000 ''e1'' ''t1''
       (sample_transition En_revision None (Some ''http://x/doc'')) (sample_user ''u2'' ''support'')
     = (sample_db [sample_doc ''t1'' (Some (JStr ''En progreso''))], Inl Forbidden)
   \<and> transition_request (sample_db [sample_doc ''t1'' (Some (JStr ''En progreso''))]) 5000 6000 ''e1'' ''t1''
       (sample_transition En_revision None (Some ''  '')) (sample_user ''u1'' ''admin'')
     = (sample_db [sample_doc ''t1'' (Some (JStr ''En progreso''))], Inl ValidationError)
   \<and> (\<exists>db' r d. transition_request (sample_db [sample_doc ''t1'' (Some (JStr ''En progreso''))])
          5000 6000 ''e1'' ''t1'' (sample_transition En_revision None (Some '' http://x/doc ''))
          (sample_user ''u1'' ''admin'') = (db', Inr r)
        \<and> status r = En_revision
        \<and> review_evidence r = Some \<lparr>re_type = ''link'', re_url = ''http://x/doc'',
                                      re_by = ''u1'', re_at = 5000\<rparr>
        \<and> requests db' = [d]
        \<and> d_review_evidence d = Some \<lparr>re_type = ''link'', re_url = ''http://x/doc'',
                                        re_by = ''u1'', re_at = 5000\<rparr>
        \<and> ticket_status_events db' =
             [\<lparr>tse_id = ''e1'', ticket_id = ''t1'', estado = En_revision,
               changed_by = ''u1'', changed_at = 5000\<rparr>])"
proof -
  note f = sample_doc_find [of "''t1''" "Some (JStr (label En_progreso))"]
  note c = sample_doc_read [of "''t1''" En_progreso]
  have s: "strip '' http://x/doc '' = ''http://x/doc''" "strip ''  '' = []"
    by (simp_all add: strip_def is_space_def)
  have rq: "requests (sample_db [sample_doc ''t1'' (Some (JStr ''En progreso''))])
      = [sample_doc ''t1'' (Some (JStr ''En progreso''))]"
    "ticket_status_events (sample_db [sample_doc ''t1'' (Some (JStr ''En progreso''))]) = []"
    by (simp_all add: sample_db_def)
  have u: "user_id (sample_user ''u1'' ''admin'') = ''u1''" "role (sample_user ''u1'' ''admin'') = ''admin''"
    "user_id (sample_user ''u2'' ''support'') = ''u2''" "role (sample_user ''u2'' ''support'') = ''support''"
    by (simp_all add: sample_user_def)
  have a: "d_assigned_to (sample_doc ''t1'' (Some (JStr ''En progreso''))) = None"
    "d_assigned_by_id (sample_doc ''t1'' (Some (JStr ''En progreso''))) = None"
    by (simp_all add: sample_doc_def)
  show ?thesis
    using review_needs_evidence_and_permission [OF f c, of
        "sample_transition En_revision None (Some ''http://x/doc'')" "sample_user ''u2'' ''support''" 5000 6000 "''e1''"]
      review_needs_evidence_and_permission [OF f c, of
        "sample_transition En_revision None (Some ''  '')" "sample_user ''u1'' ''admin''" 5000 6000 "''e1''"]
      review_needs_evidence_and_permission [OF f c, of
        "sample_transition En_revision None (Some '' http://x/doc '')" "sample_user ''u1'' ''admin''" 5000 6000 "''e1''"]
    by (auto simp: sample_transition_def blank_def s rq u a dest!: single_split)
qed

theorem review_without_evidence_counterexample:
  "map_option status (to_request (sample_doc ''t1'' (Some (JStr ''En progreso'')))) = Some En_progreso
   \<and> tp_to_status (sample_transition En_revision None None) = En_revision
   \<and> blank (tp_evidence_link (sample_transition En_revision None None))
   \<and> transition_request (sample_db [sample_doc ''t1'' (Some (JStr ''En progreso''))]) 5 6 ''e1'' ''t1''
       (sample_transition En_revision None None) (sample_user ''u2'' ''support'')
     = (sample_db [sample_doc ''t1'' (Some (JStr ''En progreso''))], Inl Forbidden)
   \<and> transition_request (sample_db [sample_doc ''t1'' (Some (JStr ''En progreso''))]) 5 6 ''e1'' ''t1''
       (sample_transition En_revision None None) (sample_user ''u2'' ''support'')
     \<noteq> (sample_db [sample_doc ''t1'' (Some (JStr ''En progreso''))], Inl ValidationError)"
proof -
  note f = sample_doc_find [of "''t1''" "Some (JStr (label En_progreso))"]
  note c = sample_doc_read [of "''t1''" En_progreso]
  have "transition_request (sample_db [sample_doc ''t1'' (Some (JStr ''En progreso''))]) 5 6 ''e1'' ''t1''
       (sample_transition En_revision None None) (sample_user ''u2'' ''support'')
     = (sample_db [sample_doc ''t1'' (Some (JStr ''En progreso''))], Inl Forbidden)"
    using f c
    by (simp add: transition_request_def ensure_transition_def sample_transition_def
        sample_user_def sample_doc_def)
  then show ?thesis
    using c by (simp add: sample_transition_def blank_def)
qed

section \<open>The transition table\<close>

text \<open>
  C1, as amended. For a stored ticket, read as \<open>current\<close>, and a target status: when
  the pair is in \<open>ALLOWED_TRANSITIONS\<close> and the rule of the target holds (a non-blank
  comment for \<open>Rechazada\<close>; a permitted actor and a non-blank evidence link for
  \<open>En_revision\<close>), \<open>transition_request\<close> succeeds, the stored ticket gets exactly one
  more \<open>StateEvent\<close> at the end of its history, the Event Log gets exactly one more
  record at its end, and no other document changes. When the pair is in the table
  and the rule of the target fails, the handler raises \<open>ValidationError\<close> or
  \<open>Forbidden\<close> and the database is as before. When the pair is not in the table the
  handler raises \<open>InvalidTransition\<close> and the database is as before.
  The counterexample to the claim as first stated is the pair
  (\<open>Pendiente\<close>, \<open>Rechazada\<close>) without a comment: it is in the table and fails.
\<close>

theorem transition_follows_table:
  assumes f: "find_request db rid = Some doc" and c: "to_request doc = Some current"
  shows "(tp_to_status p \<in> ALLOWED_TRANSITIONS (status current)
          \<and> (tp_to_status p = Rechazada \<longrightarrow> \<not> blank (tp_comment p))
          \<and> (tp_to_status p = En_revision \<longrightarrow>
               (Some (user_id u) \<in> {d_assigned_to doc, d_assigned_by_id doc} \<or> role u = ''admin'')
               \<and> \<not> blank (tp_evidence_link p)) \<longrightarrow>
          (\<exists>db' r pre post doc'.
              transition_request db now stamp eid rid p u = (db', Inr r)
            \<and> status r = tp_to_status p
            \<and> requests db = pre @ doc # post \<and> requests db' = pre @ doc' # post
            \<and> d_state_history doc' = d_state_history doc @
                 [\<lparr>from_status = Some (status current), to_status = tp_to_status p,
                   ev_at = stamp, by_user_id = user_id u, by_user_name = full_name u\<rparr>]
            \<and> state_history r = d_state_history doc'
            \<and> ticket_status_events db' = ticket_status_events db @
                 [\<lparr>tse_id = eid, ticket_id = rid, estado = tp_to_status p,
                   changed_by = user_id u, changed_at = now\<rparr>]
            \<and> users db' = users db))
       \<and> (tp_to_status p \<in> ALLOWED_TRANSITIONS (status current)
          \<and> \<not> ((tp_to_status p = Rechazada \<longrightarrow> \<not> blank (tp_comment p))
              \<and> (tp_to_status p = En_revision \<longrightarrow>
                   (Some (user_id u) \<in> {d_assigned_to doc, d_assigned_by_id doc} \<or> role u = ''admin'')
                   \<and> \<not> blank (tp_evidence_link p))) \<longrightarrow>
          transition_request db now stamp eid rid p u = (db, Inl ValidationError)
          \<or> transition_request db now stamp eid rid p u = (db, Inl Forbidden))
       \<and> (tp_to_status p \<notin> ALLOWED_TRANSITIONS (status current) \<longrightarrow>
          transition_request db now stamp eid rid p u = (db, Inl InvalidTransition))"
proof (intro conjI impI)
  assume a: "tp_to_status p \<in> ALLOWED_TRANSITIONS (status current)
          \<and> (tp_to_status p = Rechazada \<longrightarrow> \<not> blank (tp_comment p))
          \<and> (tp_to_status p = En_revision \<longrightarrow>
               (Some (user_id u) \<in> {d_assigned_to doc, d_assigned_by_id doc} \<or> role u = ''admin'')
               \<and> \<not> blank (tp_evidence_link p))"
  let ?f = "transition_ops current p u now stamp"
  let ?db' = "db\<lparr>requests := update_first rid ?f (requests db),
          ticket_status_events := ticket_status_events db @
            [\<lparr>tse_id = eid, ticket_id = rid, estado = tp_to_status p,
              changed_by = user_id u, changed_at = now\<rparr>]\<rparr>"
  from a transition_request_ok [OF f c, of p u now stamp eid]
  obtain r where r: "transition_request db now stamp eid rid p u = (?db', Inr r)"
    "to_request (?f doc) = Some r"
    by auto
  from f obtain pre post where sp: "requests db = pre @ doc # post"
    "update_first rid ?f (requests db) = pre @ ?f doc # post"
    using update_first_split [of rid "requests db" doc ?f] by (auto simp: find_request_def)
  have h: "d_state_history (?f doc) = d_state_history doc @
                 [\<lparr>from_status = Some (status current), to_status = tp_to_status p,
                   ev_at = stamp, by_user_id = user_id u, by_user_name = full_name u\<rparr>]"
    by (simp add: transition_ops_def Let_def)
  have st: "status r = tp_to_status p"
    using to_request_status [OF _ r(2), of "tp_to_status p"] by (simp add: transition_ops_def Let_def)
  have "transition_request db now stamp eid rid p u = (?db', Inr r)
            \<and> status r = tp_to_status p
            \<and> requests db = pre @ doc # post \<and> requests ?db' = pre @ ?f doc # post
            \<and> d_state_history (?f doc) = d_state_history doc @
                 [\<lparr>from_status = Some (status current), to_status = tp_to_status p,
                   ev_at = stamp, by_user_id = user_id u, by_user_name = full_name u\<rparr>]
            \<and> state_history r = d_state_history (?f doc)
            \<and> ticket_status_events ?db' = ticket_status_events db @
                 [\<lparr>tse_id = eid, ticket_id = rid, estado = tp_to_status p,
                   changed_by = user_id u, changed_at = now\<rparr>]
            \<and> users ?db' = users db"
    using r(1) st sp h to_request_fields(5) [OF r(2)] by simp
  then show "\<exists>db' r pre post doc'.
              transition_request db now stamp eid rid p u = (db', Inr r)
            \<and> status r = tp_to_status p
            \<and> requests db = pre @ doc # post \<and> requests db' = pre @ doc' # post
            \<and> d_state_history doc' = d_state_history doc @
                 [\<lparr>from_status = Some (status current), to_status = tp_to_status p,
                   ev_at = stamp, by_user_id = user_id u, by_user_name = full_name u\<rparr>]
            \<and> state_history r = d_state_history doc'
            \<and> ticket_status_events db' = ticket_status_events db @
                 [\<lparr>tse_id = eid, ticket_id = rid, estado = tp_to_status p,
                   changed_by = user_id u, changed_at = now\<rparr>]
            \<and> users db' = users db"
    by blast
next
  assume "tp_to_status p \<in> ALLOWED_TRANSITIONS (status current)
          \<and> \<not> ((tp_to_status p = Rechazada \<longrightarrow> \<not> blank (tp_comment p))
              \<and> (tp_to_status p = En_revision \<longrightarrow>
                   (Some (user_id u) \<in> {d_assigned_to doc, d_assigned_by_id doc} \<or> role u = ''admin'')
                   \<and> \<not> blank (tp_evidence_link p)))"
  then show "transition_request db now stamp eid rid p u = (db, Inl ValidationError)
          \<or> transition_request db now stamp eid rid p u = (db, Inl Forbidden)"
    using f c by (auto simp: transition_request_def ensure_transition_def)
next
  assume "tp_to_status p \<notin> ALLOWED_TRANSITIONS (status current)"
  then show "transition_request db now stamp eid rid p u = (db, Inl InvalidTransition)"
    using transition_request_invalid [OF f c] by simp
qed

theorem transition_follows_table_witness:
  "(\<exists>db' r doc'. transition_request (sample_db [sample_doc ''t1'' (Some (JStr ''Pendiente''))])
          5 6 ''e1'' ''t1'' (sample_transition En_progreso None None)
          (sample_user ''u2'' ''support'') = (db', Inr r)
        \<and> status r = En_progreso
        \<and> requests db' = [doc']
        \<and> d_state_history doc' =
             [\<lparr>from_status = Some Pendiente, to_status = En_progreso, ev_at = 6,
               by_user_id = ''u2'', by_user_name = ''Name of u2''\<rparr>]
        \<and> ticket_status_events db' =
             [\<lparr>tse_id = ''e1'', ticket_id = ''t1'', estado = En_progreso,
               changed_by = ''u2'', changed_at = 5\<rparr>])
   \<and> transition_request (sample_db [sample_doc ''t1'' (Some (JStr ''Pendiente''))])
          5 6 ''e1'' ''t1'' (sample_transition Finalizada None None)
          (sample_user ''u2'' ''support'')
       = (sample_db [sample_doc ''t1'' (Some (JStr ''Pendiente''))], Inl InvalidTransition)"
proof -
  note f = sample_doc_find [of "''t1''" "Some (JStr (label Pendiente))"]
  note c = sample_doc_read [of "''t1''" Pendiente]
  have hs: "d_state_history (sample_doc ''t1'' (Some (JStr ''Pendiente''))) = []"
    by (simp add: sample_doc_def)
  have one: "\<And>pre post (d::RequestDoc) d'. [d] = pre @ d' # post \<Longrightarrow> pre = [] \<and> post = []"
    by (metis Cons_eq_append_conv Nil_is_append_conv list.distinct(1) list.inject)
  show ?thesis
    using transition_follows_table [OF f c, of
        "sample_transition En_progreso None None" "sample_user ''u2'' ''support''" 5 6 "''e1''"]
      transition_follows_table [OF f c, of
        "sample_transition Finalizada None None" "sample_user ''u2'' ''support''" 5 6 "''e1''"]
    apply (simp add: sample_transition_def)
    apply (simp add: sample_user_def sample_db_def)
    apply (auto dest!: one simp: hs)
    done
qed

theorem transition_follows_table_counterexample:
  "map_option status (to_request (sample_doc ''t1'' (Some (JStr ''Pendiente'')))) = Some Pendiente
   \<and> tp_to_status (sample_transition Rechazada None None) \<in> ALLOWED_TRANSITIONS Pendiente
   \<and> transition_request (sample_db [sample_doc ''t1'' (Some (JStr ''Pendiente''))]) 5 6 ''e1'' ''t1''
       (sample_transition Rechazada None None) (sample_user ''u1'' ''admin'')
     = (sample_db [sample_doc ''t1'' (Some (JStr ''Pendiente''))], Inl ValidationError)"
proof -
  note f = sample_doc_find [of "''t1''" "Some (JStr (label Pendiente))"]
  note c = sample_doc_read [of "''t1''" Pendiente]
  have "transition_request (sample_db [sample_doc ''t1'' (Some (JStr ''Pendiente''))]) 5 6 ''e1'' ''t1''
       (sample_transition Rechazada None None) (sample_user ''u1'' ''admin'')
     = (sample_db [sample_doc ''t1'' (Some (JStr ''Pendiente''))], Inl ValidationError)"
    using f c
    by (simp add: transition_request_def ensure_transition_def sample_transition_def blank_def)
  then show ?thesis
    using c by (simp add: sample_transition_def)
qed

section \<open>Reopening a finalised ticket\<close>

text \<open>
  C2, evaluated on the code. A ticket that is read as \<open>Finalizada\<close> cannot be moved at
  all: \<open>ALLOWED_TRANSITIONS\<close> gives \<open>Finalizada\<close> no target, so \<open>transition_request\<close>
  raises \<open>InvalidTransition\<close> for every target, the database stays as it was and
  \<open>reabierto_count\<close> is not incremented. The branch of the handler that increments the
  counter for a ticket coming back from \<open>Finalizada\<close> is never reached.
\<close>

theorem reopen_is_rejected:
  assumes f: "find_request db rid = Some doc" and c: "to_request doc = Some current"
    and s: "status current = Finalizada"
  shows "transition_request db now stamp eid rid p u = (db, Inl InvalidTransition)"
  using transition_request_invalid [OF f c, of p] s by simp

theorem reopen_is_rejected_witness:
  "d_reabierto_count (sample_doc ''t1'' (Some (JStr ''Finalizada''))) = 0
   \<and> transition_request (sample_db [sample_doc ''t1'' (Some (JStr ''Finalizada''))]) 5 6 ''e1'' ''t1''
       (sample_transition En_progreso None None) (sample_user ''u1'' ''admin'')
     = (sample_db [sample_doc ''t1'' (Some (JStr ''Finalizada''))], Inl InvalidTransition)"
proof -
  note f = sample_doc_find [of "''t1''" "Some (JStr (label Finalizada))"]
  note c = sample_doc_read [of "''t1''" Finalizada]
  show ?thesis
    using reopen_is_rejected [OF f c, of 5 6 "''e1''" "sample_transition En_progreso None None"
        "sample_user ''u1'' ''admin''"]
    by (simp add: sample_doc_def)
qed

section \<open>The generic update against the dedicated transition\<close>

text \<open>
  C3, evaluated on the code. On a \<open>Pendiente\<close> ticket the generic update to
  \<open>Rechazada\<close> succeeds and leaves \<open>rejection_reason\<close> empty, while the dedicated
  transition to \<open>Rechazada\<close>, by the same actor at the same time and with the same
  (absent) comment, raises \<open>ValidationError\<close>: the generic path runs the table check,
  the history append and the Event Log append, but none of the comment, evidence and
  permission rules of \<open>transition_request\<close>.
\<close>

theorem generic_update_skips_rules:
  "(\<exists>db' r. update_request_generic (sample_db [sample_doc ''t1'' (Some (JStr ''Pendiente''))])
        5 6 ''e1'' ''t1'' (sample_update Rechazada) (sample_user ''u2'' ''support'') = (db', Inr r)
      \<and> status r = Rechazada \<and> rejection_reason r = None)
   \<and> transition_request (sample_db [sample_doc ''t1'' (Some (JStr ''Pendiente''))])
        5 6 ''e1'' ''t1'' (sample_transition Rechazada None None) (sample_user ''u2'' ''support'')
      = (sample_db [sample_doc ''t1'' (Some (JStr ''Pendiente''))], Inl ValidationError)"
proof -
  let ?doc = "sample_doc ''t1'' (Some (JStr (label Pendiente)))"
  let ?db = "sample_db [?doc]"
  let ?u = "sample_user ''u2'' ''support''"
  note f = sample_doc_find [of "''t1''" "Some (JStr (label Pendiente))"]
  note c = sample_doc_read [of "''t1''" Pendiente]
  let ?ops = "\<lambda>d. (set_update_data (sample_update Rechazada) 5 d)
        \<lparr>d_completion_date := Some 5,
         d_state_history := d_state_history d @
           [\<lparr>from_status = Some Pendiente, to_status = Rechazada, ev_at = 6,
             by_user_id = user_id ?u, by_user_name = full_name ?u\<rparr>],
         d_reabierto_count := d_reabierto_count d\<rparr>"
  let ?db1 = "?db\<lparr>ticket_status_events := ticket_status_events ?db @
            [\<lparr>tse_id = ''e1'', ticket_id = ''t1'', estado = Rechazada,
              changed_by = user_id ?u, changed_at = 5\<rparr>]\<rparr>"
  let ?g = "set_assigned_name (generic_assigned_name ?db1 (sample_update Rechazada)) \<circ> ?ops"
  have g: "update_request_generic ?db 5 6 ''e1'' ''t1'' (sample_update Rechazada) ?u
      = reload (update_request ?db1 ''t1'' ?g) ''t1''"
    using f c
    by (simp add: update_request_generic_def ensure_transition_def sample_update_def Let_def)
  have f1: "find_request ?db1 ''t1'' = Some ?doc"
    using f by (simp add: find_request_def)
  have id: "d_id (?g ?doc) = ''t1''"
    by (simp add: set_assigned_name_def generic_assigned_name_def sample_update_def
        set_update_data_def sample_doc_def)
  have nn: "d_type (?g ?doc) \<noteq> Null" "d_channel (?g ?doc) \<noteq> Null"
    by (simp_all add: set_assigned_name_def generic_assigned_name_def sample_update_def
        set_update_data_def sample_doc_def)
  from reload_updated [of ?db1 "''t1''" ?doc ?g "update_request ?db1 ''t1'' ?g", OF f1 id _ nn]
  obtain r where r: "reload (update_request ?db1 ''t1'' ?g) ''t1'' = (update_request ?db1 ''t1'' ?g, Inr r)"
    "to_request (?g ?doc) = Some r"
    by (auto simp: update_request_def)
  have "status r = Rechazada"
    using to_request_status [OF _ r(2), of Rechazada]
    by (simp add: set_assigned_name_def generic_assigned_name_def sample_update_def
        set_update_data_def)
  moreover have "rejection_reason r = None"
    using to_request_fields(2) [OF r(2)]
    by (simp add: set_assigned_name_def generic_assigned_name_def sample_update_def
        set_update_data_def sample_doc_def)
  moreover have "transition_request ?db 5 6 ''e1'' ''t1'' (sample_transition Rechazada None None) ?u
      = (?db, Inl ValidationError)"
    using f c
    by (simp add: transition_request_def ensure_transition_def sample_transition_def blank_def)
  ultimately show ?thesis using g r(1) by simp
qed

section \<open>Creation and the Event Log\<close>

lemma admin_fields_keeps:
  "admin_fields db payload r = Inr r' \<Longrightarrow>
     state_history r' = state_history r \<and> status r' = status r
     \<and> reabierto_count r' = reabierto_count r"
  by (auto simp: admin_fields_def Let_def split: option.splits if_splits)

lemma base_request_sel [simp]:
  "state_history (base_request now stamp nid p u) = []"
  "status (base_request now stamp nid p u) = Pendiente"
  "reabierto_count (base_request now stamp nid p u) = 0"
  by (simp_all add: base_request_def)

lemma create_request_cases:
  "(\<exists>e. create_request db now stamp nid p u = (db, Inl e))
   \<or> (\<exists>r. create_request db now stamp nid p u =
          (db\<lparr>requests := requests db @ [request_dict r]\<rparr>, Inr r)
        \<and> state_history r = [\<lparr>from_status = None, to_status = Pendiente, ev_at = stamp,
                              by_user_id = user_id u, by_user_name = full_name u\<rparr>]
        \<and> reabierto_count r = 0)"
proof (cases "if role u = ''admin'' then admin_fields db p (base_request now stamp nid p u)
              else Inr (base_request now stamp nid p u)")
  case (Inl e)
  then show ?thesis by (simp add: create_request_def Let_def)
next
  case (Inr r)
  then have "state_history r = [] \<and> status r = Pendiente \<and> reabierto_count r = 0"
    using admin_fields_keeps [of db p "base_request now stamp nid p u" r]
    by (auto split: if_splits)
  with Inr show ?thesis by (simp add: create_request_def Let_def)
qed

text \<open>
  C4, evaluated on the code. \<open>create_request\<close> never writes to
  \<open>ticket_status_events\<close>: whatever the payload, the Event Log after the call is the
  Event Log before it, although a successful call stores the new ticket with its
  synthetic \<open>StateEvent\<close> (\<open>from_status = None\<close>, \<open>to_status = Pendiente\<close>).
\<close>

theorem create_request_logs_no_event:
  "ticket_status_events (fst (create_request db now stamp new_id payload u)) = ticket_status_events db
   \<and> (\<forall>r. snd (create_request db now stamp new_id payload u) = Inr r \<longrightarrow>
         state_history r = [\<lparr>from_status = None, to_status = Pendiente, ev_at = stamp,
                              by_user_id = user_id u, by_user_name = full_name u\<rparr>]
         \<and> requests (fst (create_request db now stamp new_id payload u))
             = requests db @ [request_dict r])"
  using create_request_cases [of db now stamp new_id payload u] by auto

theorem create_request_logs_no_event_witness:
  "(\<exists>r. snd (create_request (sample_db []) 5 6 ''t1'' sample_create (sample_user ''u3'' ''employee'')) = Inr r
      \<and> state_history r = [\<lparr>from_status = None, to_status = Pendiente, ev_at = 6,
                              by_user_id = ''u3'', by_user_name = ''Name of u3''\<rparr>])
   \<and> ticket_status_events
       (fst (create_request (sample_db []) 5 6 ''t1'' sample_create (sample_user ''u3'' ''employee''))) = []"
proof -
  have "\<exists>r. snd (create_request (sample_db []) 5 6 ''t1'' sample_create (sample_user ''u3'' ''employee'')) = Inr r"
    by (simp add: create_request_def sample_user_def Let_def)
  then show ?thesis
    using create_request_logs_no_event [of "sample_db []" 5 6 "''t1''" sample_create
        "sample_user ''u3'' ''employee''"]
    by (auto simp: sample_user_def sample_db_def)
qed

section \<open>Normalisation on every read\<close>

















section \<open>The rework counter never moves\<close>

lemma update_first_pres:
  "(\<And>d. P d \<Longrightarrow> P (f d)) \<Longrightarrow> \<forall>d\<in>set ds. P d \<Longrightarrow> \<forall>d\<in>set (update_first rid f ds). P d"
  by (induction ds) auto

lemma count_zero_update:
  "(\<And>d. d_reabierto_count (f d) = d_reabierto_count d) \<Longrightarrow> count_zero db \<Longrightarrow>
   count_zero (update_request db rid f)"
  using update_first_pres [of "\<lambda>d. d_reabierto_count d = 0" f "requests db" rid]
  by (simp add: count_zero_def update_request_def)

lemma reload_fst [simp]: "fst (reload db rid) = db"
  by (simp add: reload_def split: option.splits)

lemma count_zero_events [simp]:
  "count_zero (db\<lparr>ticket_status_events := es\<rparr>) = count_zero db"
  "count_zero (db\<lparr>users := us\<rparr>) = count_zero db"
  by (simp_all add: count_zero_def)

lemma transition_ops_count:
  "tp_to_status p \<in> ALLOWED_TRANSITIONS (status current) \<Longrightarrow>
   d_reabierto_count (transition_ops current p u now stamp d) = d_reabierto_count d"
  by (cases "status current") (auto simp: transition_ops_def Let_def)

lemma create_count: "count_zero db \<Longrightarrow> count_zero (fst (create_request db now stamp nid cr u))"
  using create_request_cases [of db now stamp nid cr u]
  by (auto simp: count_zero_def request_dict_def)

lemma classify_count: "count_zero db \<Longrightarrow> count_zero (fst (classify_request db now rid cp u))"
  by (auto simp: classify_request_def split: option.splits intro!: count_zero_update)

lemma assign_count: "count_zero db \<Longrightarrow> count_zero (fst (assign_request db now rid ap u))"
  by (auto simp: assign_request_def split: option.splits intro!: count_zero_update)

lemma unassign_count: "count_zero db \<Longrightarrow> count_zero (fst (unassign_request db now rid ap u))"
  by (auto simp: unassign_request_def split: option.splits intro!: count_zero_update)

lemma feedback_count: "count_zero db \<Longrightarrow> count_zero (fst (submit_feedback db stamp rid fp u))"
  by (auto simp: submit_feedback_def split: option.splits intro!: count_zero_update)

lemma transition_count:
  "count_zero db \<Longrightarrow> count_zero (fst (transition_request db now stamp eid rid tp u))"
  by (auto simp: transition_request_def ensure_transition_def Let_def transition_ops_count
      split: option.splits if_splits intro!: count_zero_update)

lemma set_assigned_name_count [simp]:
  "d_reabierto_count (set_assigned_name n d) = d_reabierto_count d"
  by (simp add: set_assigned_name_def split: option.splits)

lemma set_update_data_count [simp]:
  "d_reabierto_count (set_update_data ru now d) = d_reabierto_count d"
  by (simp add: set_update_data_def)

lemma not_from_finalizada: "new \<in> ALLOWED_TRANSITIONS old \<Longrightarrow> old \<noteq> Finalizada"
  by (cases old) auto

lemma generic_count:
  "count_zero db \<Longrightarrow> count_zero (fst (update_request_generic db now stamp eid rid ru u))"
  by (auto simp: update_request_generic_def ensure_transition_def Let_def
      split: option.splits if_splits dest: not_from_finalizada intro!: count_zero_update)

text \<open>
  C9. In every database reached from one without tickets by creation, classify,
  assign, unassign, transition, feedback and generic update (in any order, with any
  arguments), every stored ticket has \<open>reabierto_count = 0\<close>, and so has every request
  read from it: a ticket is created with the counter at 0, and the two handlers that
  could increment it call \<open>ensure_transition\<close> first, which lets nothing leave
  \<open>Finalizada\<close>, the only status the increment is written for.
\<close>

theorem reabierto_count_stays_zero:
  assumes "reachable db"
  shows "(\<forall>d\<in>set (requests db). d_reabierto_count d = 0)
       \<and> (\<forall>d\<in>set (requests db). \<forall>r. to_request d = Some r \<longrightarrow> reabierto_count r = 0)"
proof -
  from assms have "count_zero db"
  proof (induction rule: reachable.induct)
    case (no_tickets db)
    then show ?case by (simp add: count_zero_def)
  next
    case (users_changed db us)
    then show ?case by simp
  next
    case (created db now stamp new_id cr u)
    then show ?case by (simp add: create_count)
  next
    case (classified db now request_id cp u)
    then show ?case by (simp add: classify_count)
  next
    case (assigned db now request_id ap u)
    then show ?case by (simp add: assign_count)
  next
    case (unassigned db now request_id ap u)
    then show ?case by (simp add: unassign_count)
  next
    case (transitioned db now stamp event_id request_id tp u)
    then show ?case by (simp add: transition_count)
  next
    case (fed_back db stamp request_id fp u)
    then show ?case by (simp add: feedback_count)
  next
    case (updated db now stamp event_id request_id ru u)
    then show ?case by (simp add: generic_count)
  qed
  then show ?thesis
    using to_request_fields(6) by (auto simp: count_zero_def)
qed

theorem reabierto_count_stays_zero_witness:
  "reachable (fst (create_request (sample_db []) 5 6 ''t1'' sample_create (sample_user ''u3'' ''employee'')))
   \<and> (\<exists>d. requests (fst (create_request (sample_db []) 5 6 ''t1'' sample_create
                (sample_user ''u3'' ''employee''))) = [d]
          \<and> d_reabierto_count d = 0)"
proof -
  let ?db = "fst (create_request (sample_db []) 5 6 ''t1'' sample_create (sample_user ''u3'' ''employee''))"
  have r: "reachable ?db"
    by (rule reachable.created, rule reachable.no_tickets) (simp add: sample_db_def)
  have "\<exists>d. requests ?db = [d]"
    using create_request_cases [of "sample_db []" 5 6 "''t1''" sample_create "sample_user ''u3'' ''employee''"]
    by (auto simp: sample_db_def create_request_def sample_user_def Let_def)
  with reabierto_count_stays_zero [OF r] r show ?thesis by auto
qed

section \<open>Unassign\<close>

lemma request_of_assigned_by:
  "request_of (d\<lparr>d_assigned_by_id := x, d_assigned_by_name := y\<rparr>) st ty ch = request_of d st ty ch"
  by (simp add: request_of_def)

lemma to_request_assigned_by:
  "to_request (d\<lparr>d_assigned_by_id := x, d_assigned_by_name := y\<rparr>) = to_request d"
proof -
  have "normalize_request_doc (d\<lparr>d_assigned_by_id := x, d_assigned_by_name := y\<rparr>)
      = (normalize_request_doc d)\<lparr>d_assigned_by_id := x, d_assigned_by_name := y\<rparr>"
    by (simp add: normalize_request_doc_def)
  then show ?thesis
    by (simp add: to_request_def build_request_def request_of_assigned_by
        split: option.splits entry.splits)
qed

lemma find_user_id: "find_user db uid = Some tu \<Longrightarrow> user_id tu = uid"
  by (auto simp: find_user_def find_Some_iff)

lemma update_first_at:
  "\<forall>d\<in>set pre. d_id d \<noteq> rid \<Longrightarrow> d_id doc = rid \<Longrightarrow>
   update_first rid g (pre @ doc # post) = pre @ g doc # post"
  by (induction pre) auto

lemma find_request_split:
  "find_request db rid = Some doc \<Longrightarrow>
   \<exists>pre post. requests db = pre @ doc # post \<and> (\<forall>d\<in>set pre. d_id d \<noteq> rid)"
  using update_first_split [of rid "requests db" doc id] by (auto simp: find_request_def)

lemma target_user_id_cases:
  "ap_assigned_to p = None \<or> ap_assigned_to p = Some [] \<Longrightarrow> target_user_id p u = user_id u"
  "ap_assigned_to p = Some a \<Longrightarrow> a \<noteq> [] \<Longrightarrow> target_user_id p u = a"
  by (auto simp: target_user_id_def)

lemma unassign_succeeds:
  assumes f: "find_request db rid = Some doc"
    and tu: "find_user db (target_user_id p u) = Some tu"
    and nn: "d_type doc \<noteq> Null" "d_channel doc \<noteq> Null"
  shows "\<exists>db' r. unassign_request db now rid p u = (db', Inr r)"
proof -
  define fu :: "RequestDoc \<Rightarrow> RequestDoc" where
    "fu = (\<lambda>d. d\<lparr>d_assigned_to := Some (user_id tu),
                     d_assigned_to_name := Some (full_name tu),
                     d_estimated_hours := ap_estimated_hours p,
                     d_estimated_due := ap_estimated_due p,
                     d_updated_at := now\<rparr>)"
  have id: "d_id (fu doc) = rid" using find_request_id [OF f] by (simp add: fu_def)
  have n: "d_type (fu doc) \<noteq> Null" "d_channel (fu doc) \<noteq> Null"
    using nn by (simp_all add: fu_def)
  have "unassign_request db now rid p u = reload (update_request db rid fu) rid"
    using f tu by (simp add: unassign_request_def fu_def)
  moreover from reload_updated [of db rid doc fu "update_request db rid fu", OF f id _ n]
  obtain r where "reload (update_request db rid fu) rid = (update_request db rid fu, Inr r)"
    by (auto simp: update_request_def)
  ultimately show ?thesis by simp
qed

lemma sample_unassign:
  assumes t: "find_user (sample_db [sample_doc ''t1'' st]) (target_user_id p u) = Some tu"
    and g: "target_user_id p u = tid"
    and p: "ap_assigned_to p = None \<or> ap_assigned_to p = Some tid \<and> tid \<noteq> []"
    and k: "ap_assigned_to p = None \<longrightarrow> tid = user_id u"
    and w: "\<And>db' r. unassign_request (sample_db [sample_doc ''t1'' st]) now ''t1'' p u = (db', Inr r)
      \<Longrightarrow> \<exists>doc doc' pre post tid.
           requests (sample_db [sample_doc ''t1'' st]) = pre @ doc # post
         \<and> requests db' = pre @ doc' # post
         \<and> (ap_assigned_to p = None \<or> ap_assigned_to p = Some [] \<longrightarrow> tid = user_id u)
         \<and> (\<forall>a. ap_assigned_to p = Some a \<and> a \<noteq> [] \<longrightarrow> tid = a)
         \<and> d_assigned_to doc' = Some tid
         \<and> d_assigned_by_id doc' = d_assigned_by_id doc
         \<and> assigned_to r = Some tid"
  shows "\<exists>db' r d. unassign_request (sample_db [sample_doc ''t1'' st]) now ''t1'' p u = (db', Inr r)
     \<and> assigned_to r = Some tid \<and> requests db' = [d] \<and> d_assigned_to d = Some tid
     \<and> d_assigned_by_id d = None"
proof -
  from unassign_succeeds [OF sample_doc_find t, of now]
  obtain db' r where un: "unassign_request (sample_db [sample_doc ''t1'' st]) now ''t1'' p u = (db', Inr r)"
    by auto
  from w [OF un] obtain doc doc' pre post tid' where
    x: "requests (sample_db [sample_doc ''t1'' st]) = pre @ doc # post"
      "requests db' = pre @ doc' # post"
      "ap_assigned_to p = None \<or> ap_assigned_to p = Some [] \<longrightarrow> tid' = user_id u"
      "\<forall>a. ap_assigned_to p = Some a \<and> a \<noteq> [] \<longrightarrow> tid' = a"
      "d_assigned_to doc' = Some tid'"
      "d_assigned_by_id doc' = d_assigned_by_id doc"
      "assigned_to r = Some tid'"
    by blast
  have "requests (sample_db [sample_doc ''t1'' st]) = [sample_doc ''t1'' st]"
    by (simp add: sample_db_def)
  with x(1) have e: "pre = [] \<and> post = [] \<and> doc = sample_doc ''t1'' st"
    using single_split [of "sample_doc ''t1'' st" pre doc post] by simp
  have "tid' = tid" using p k x(3,4) by auto
  moreover have "d_assigned_by_id (sample_doc ''t1'' st) = None" by (simp add: sample_doc_def)
  ultimately show ?thesis using un x e by auto
qed

text \<open>
  C10. A successful \<open>unassign_request\<close> changes one stored ticket, nothing else, and
  leaves it with an assignee: \<open>assigned_to\<close> is the id the payload names, or the id of
  the caller when the payload names nobody (no \<open>assigned_to\<close>, or an empty one); that
  user exists, and \<open>assigned_to_name\<close> is his full name; \<open>estimated_hours\<close> and
  \<open>estimated_due\<close> are the values of the payload (null when omitted); \<open>assigned_by_id\<close>
  and \<open>assigned_by_name\<close> are as before. The response shows the same assignee and
  estimates. The same call to \<open>assign_request\<close> succeeds as well, responds with the
  same request and stores the same ticket but for \<open>assigned_by_id\<close> and
  \<open>assigned_by_name\<close>, which it sets to the caller.
\<close>

theorem unassign_keeps_assignee:
  assumes un: "unassign_request db now rid p u = (db', Inr r)"
  shows "\<exists>doc doc' pre post db_a tid tu.
       requests db = pre @ doc # post \<and> requests db' = pre @ doc' # post
     \<and> find_request db' rid = Some doc'
     \<and> ticket_status_events db' = ticket_status_events db \<and> users db' = users db
     \<and> (ap_assigned_to p = None \<or> ap_assigned_to p = Some [] \<longrightarrow> tid = user_id u)
     \<and> (\<forall>a. ap_assigned_to p = Some a \<and> a \<noteq> [] \<longrightarrow> tid = a)
     \<and> find_user db tid = Some tu
     \<and> d_assigned_to doc' = Some tid
     \<and> d_assigned_to_name doc' = Some (full_name tu)
     \<and> d_estimated_hours doc' = ap_estimated_hours p
     \<and> d_estimated_due doc' = ap_estimated_due p
     \<and> d_updated_at doc' = now
     \<and> d_assigned_by_id doc' = d_assigned_by_id doc
     \<and> d_assigned_by_name doc' = d_assigned_by_name doc
     \<and> assigned_to r = Some tid
     \<and> assigned_to_name r = Some (full_name tu)
     \<and> estimated_hours r = ap_estimated_hours p
     \<and> estimated_due r = ap_estimated_due p
     \<and> assign_request db now rid p u = (db_a, Inr r)
     \<and> requests db_a = pre @ doc'\<lparr>d_assigned_by_id := Some (user_id u),
                                   d_assigned_by_name := Some (full_name u)\<rparr> # post
     \<and> ticket_status_events db_a = ticket_status_events db'
     \<and> users db_a = users db'"
proof -
  from un obtain doc where f: "find_request db rid = Some doc"
    by (auto simp: unassign_request_def split: option.splits)
  from un f obtain tu where tu: "find_user db (target_user_id p u) = Some tu"
    by (auto simp: unassign_request_def split: option.splits)
  define tid where "tid = target_user_id p u"
  define fu :: "RequestDoc \<Rightarrow> RequestDoc" where
    "fu = (\<lambda>d. d\<lparr>d_assigned_to := Some (user_id tu),
                     d_assigned_to_name := Some (full_name tu),
                     d_estimated_hours := ap_estimated_hours p,
                     d_estimated_due := ap_estimated_due p,
                     d_updated_at := now\<rparr>)"
  define fa :: "RequestDoc \<Rightarrow> RequestDoc" where
    "fa = (\<lambda>d. (fu d)\<lparr>d_assigned_by_id := Some (user_id u),
                        d_assigned_by_name := Some (full_name u)\<rparr>)"
  have rid: "d_id doc = rid" by (rule find_request_id [OF f])
  have id: "d_id (fu doc) = rid" "d_id (fa doc) = rid"
    using rid by (simp_all add: fu_def fa_def)
  have unr: "unassign_request db now rid p u = reload (update_request db rid fu) rid"
    using f tu by (simp add: unassign_request_def fu_def)
  have asr: "assign_request db now rid p u = reload (update_request db rid fa) rid"
    using f tu by (simp add: assign_request_def fa_def fu_def)
  have fdu: "find_request (update_request db rid fu) rid = Some (fu doc)"
    using f id(1) by (simp add: find_request_def update_request_def find_update_first)
  have fda: "find_request (update_request db rid fa) rid = Some (fa doc)"
    using f id(2) by (simp add: find_request_def update_request_def find_update_first)
  from un unr have d': "db' = update_request db rid fu"
    by (auto simp: reload_def split: option.splits)
  from un unr fdu have r1: "to_request (fu doc) = Some r"
    by (auto simp: reload_def split: option.splits)
  have "to_request (fa doc) = to_request (fu doc)"
    unfolding fa_def by (rule to_request_assigned_by)
  with r1 fda have c5: "assign_request db now rid p u = (update_request db rid fa, Inr r)"
    by (simp add: asr reload_def)
  from find_request_split [OF f] obtain pre post where sp: "requests db = pre @ doc # post"
    "\<forall>d\<in>set pre. d_id d \<noteq> rid" by blast
  have c1: "requests db' = pre @ fu doc # post"
    unfolding d' by (simp add: update_request_def sp(1) update_first_at [OF sp(2) rid])
  have c1b: "find_request db' rid = Some (fu doc)" unfolding d' by (rule fdu)
  have c1c: "ticket_status_events db' = ticket_status_events db" "users db' = users db"
    unfolding d' by (simp_all add: update_request_def)
  have t1: "ap_assigned_to p = None \<or> ap_assigned_to p = Some [] \<longrightarrow> tid = user_id u"
    and t2: "\<forall>a. ap_assigned_to p = Some a \<and> a \<noteq> [] \<longrightarrow> tid = a"
    unfolding tid_def using target_user_id_cases [of p] by blast+
  have t3: "find_user db tid = Some tu" unfolding tid_def by (rule tu)
  have ut: "user_id tu = tid" unfolding tid_def by (rule find_user_id [OF tu])
  have c2: "d_assigned_to (fu doc) = Some tid" "d_assigned_to_name (fu doc) = Some (full_name tu)"
    using ut by (simp_all add: fu_def)
  have c3: "d_estimated_hours (fu doc) = ap_estimated_hours p"
    "d_estimated_due (fu doc) = ap_estimated_due p"
    "d_updated_at (fu doc) = now"
    "d_assigned_by_id (fu doc) = d_assigned_by_id doc"
    "d_assigned_by_name (fu doc) = d_assigned_by_name doc"
    by (simp_all add: fu_def)
  have c4: "assigned_to r = Some tid" "assigned_to_name r = Some (full_name tu)"
    "estimated_hours r = ap_estimated_hours p" "estimated_due r = ap_estimated_due p"
    using to_request_fields [OF r1] c2 c3 by simp_all
  have c6: "requests (update_request db rid fa) =
      pre @ (fu doc)\<lparr>d_assigned_by_id := Some (user_id u),
                       d_assigned_by_name := Some (full_name u)\<rparr> # post"
    by (simp add: update_request_def sp(1) update_first_at [OF sp(2) rid]) (simp add: fa_def)
  have c7: "ticket_status_events (update_request db rid fa) = ticket_status_events db'"
    "users (update_request db rid fa) = users db'"
    unfolding d' by (simp_all add: update_request_def)
  show ?thesis
    using sp(1) c1 c1b c1c t1 t2 t3 c2 c3 c4 c5 c6 c7 by blast
qed

theorem unassign_keeps_assignee_witness:
  "(\<exists>db' r d. unassign_request (sample_db [sample_doc ''t1'' (Some (JStr ''En progreso''))]) 5000 ''t1''
        \<lparr>ap_assigned_to = Some ''u2'', ap_estimated_hours = None, ap_estimated_due = None\<rparr>
        (sample_user ''u1'' ''admin'') = (db', Inr r)
     \<and> assigned_to r = Some ''u2'' \<and> requests db' = [d] \<and> d_assigned_to d = Some ''u2''
     \<and> d_assigned_by_id d = None)
   \<and> (\<exists>db' r d. unassign_request (sample_db [sample_doc ''t1'' (Some (JStr ''En progreso''))]) 5000 ''t1''
        \<lparr>ap_assigned_to = None, ap_estimated_hours = None, ap_estimated_due = None\<rparr>
        (sample_user ''u1'' ''admin'') = (db', Inr r)
     \<and> assigned_to r = Some ''u1'' \<and> requests db' = [d] \<and> d_assigned_to d = Some ''u1''
     \<and> d_assigned_by_id d = None)"
proof -
  let ?st = "Some (JStr ''En progreso'')"
  let ?db = "sample_db [sample_doc ''t1'' ?st]"
  let ?u = "sample_user ''u1'' ''admin''"
  let ?p2 = "\<lparr>ap_assigned_to = Some ''u2'', ap_estimated_hours = None, ap_estimated_due = None\<rparr>"
  let ?p0 = "\<lparr>ap_assigned_to = None, ap_estimated_hours = None, ap_estimated_due = None\<rparr>"
  have g2: "target_user_id ?p2 ?u = ''u2''" and g0: "target_user_id ?p0 ?u = ''u1''"
    by (simp_all add: target_user_id_def sample_user_def)
  have t2: "find_user ?db (target_user_id ?p2 ?u) = Some (sample_user ''u2'' ''support'')"
    unfolding g2 by (simp add: find_user_def sample_db_def sample_user_def)
  have t0: "find_user ?db (target_user_id ?p0 ?u) = Some (sample_user ''u1'' ''admin'')"
    unfolding g0 by (simp add: find_user_def sample_db_def sample_user_def)
  have a: "\<exists>db' r d. unassign_request ?db 5000 ''t1'' ?p2 ?u = (db', Inr r)
     \<and> assigned_to r = Some ''u2'' \<and> requests db' = [d] \<and> d_assigned_to d = Some ''u2''
     \<and> d_assigned_by_id d = None"
  proof (rule sample_unassign [OF t2 g2])
    show "ap_assigned_to ?p2 = None \<or> ap_assigned_to ?p2 = Some ''u2'' \<and> ''u2'' \<noteq> []" by simp
    show "ap_assigned_to ?p2 = None \<longrightarrow> ''u2'' = user_id ?u" by simp
    fix db' r
    assume "unassign_request ?db 5000 ''t1'' ?p2 ?u = (db', Inr r)"
    from unassign_keeps_assignee [OF this]
    show "\<exists>doc doc' pre post tid.
           requests ?db = pre @ doc # post
         \<and> requests db' = pre @ doc' # post
         \<and> (ap_assigned_to ?p2 = None \<or> ap_assigned_to ?p2 = Some [] \<longrightarrow> tid = user_id ?u)
         \<and> (\<forall>a. ap_assigned_to ?p2 = Some a \<and> a \<noteq> [] \<longrightarrow> tid = a)
         \<and> d_assigned_to doc' = Some tid
         \<and> d_assigned_by_id doc' = d_assigned_by_id doc
         \<and> assigned_to r = Some tid"
      by blast
  qed
  have b: "\<exists>db' r d. unassign_request ?db 5000 ''t1'' ?p0 ?u = (db', Inr r)
     \<and> assigned_to r = Some ''u1'' \<and> requests db' = [d] \<and> d_assigned_to d = Some ''u1''
     \<and> d_assigned_by_id d = None"
  proof (rule sample_unassign [OF t0 g0])
    show "ap_assigned_to ?p0 = None \<or> ap_assigned_to ?p0 = Some ''u1'' \<and> ''u1'' \<noteq> []" by simp
    show "ap_assigned_to ?p0 = None \<longrightarrow> ''u1'' = user_id ?u" by (simp add: sample_user_def)
    fix db' r
    assume "unassign_request ?db 5000 ''t1'' ?p0 ?u = (db', Inr r)"
    from unassign_keeps_assignee [OF this]
    show "\<exists>doc doc' pre post tid.
           requests ?db = pre @ doc # post
         \<and> requests db' = pre @ doc' # post
         \<and> (ap_assigned_to ?p0 = None \<or> ap_assigned_to ?p0 = Some [] \<longrightarrow> tid = user_id ?u)
         \<and> (\<forall>a. ap_assigned_to ?p0 = Some a \<and> a \<noteq> [] \<longrightarrow> tid = a)
         \<and> d_assigned_to doc' = Some tid
         \<and> d_assigned_by_id doc' = d_assigned_by_id doc
         \<and> assigned_to r = Some tid"
      by blast
  qed
  from a b show ?thesis by (rule conjI)
qed

section \<open>Time by state on a stored log\<close>

lemma dict_set_nonempty: "dict_set k v l \<noteq> []"
  by (cases l) auto

lemma walk_event_snd: "snd (walk_event fl (st, l) ev) \<noteq> []"
  by (simp add: walk_event_def Let_def dict_set_nonempty)

lemma foldl_walk_event_nonempty:
  "evs \<noteq> [] \<or> l \<noteq> [] \<Longrightarrow> snd (foldl (walk_event fl) (st, l) evs) \<noteq> []"
proof (induction evs arbitrary: st l)
  case Nil
  then show ?case by simp
next
  case (Cons ev evs)
  obtain st1 l1 where w: "walk_event fl (st, l) ev = (st1, l1)"
    by (cases "walk_event fl (st, l) ev")
  have "l1 \<noteq> []"
    using walk_event_snd [of fl st l ev] w by simp
  then show ?case
    using Cons.IH [of l1 st1] w by simp
qed

lemma close_segments_aware:
  "l \<noteq> [] \<Longrightarrow> close_segments fl (Aware e) st l = Inl ServerError"
  by (cases l) (auto simp: minus_naive_def)

lemma state_hours_aware:
  assumes "evs \<noteq> []"
  shows "state_hours fl (Aware e) evs = Inl ServerError"
proof -
  obtain st l where w: "foldl (walk_event fl) ([], []) evs = (st, l)"
    by (cases "foldl (walk_event fl) ([], []) evs")
  have "l \<noteq> []"
    using foldl_walk_event_nonempty [of evs "[]" fl "[]"] assms w by simp
  then show ?thesis
    by (simp add: state_hours_def w close_segments_aware)
qed

lemma metrics_period_range:
  assumes "date_from = None \<or> date_to = None" and "fetch_events db now \<noteq> []"
  shows "metrics_time_by_state fl db period_start now date_from date_to = Inl ServerError"
proof -
  have "resolve_range period_start now date_from date_to = (Aware period_start, Aware now)"
    using assms(1) by (auto simp: resolve_range_def range_for_period_def split: option.splits)
  then show ?thesis
    using assms(2) by (simp add: metrics_time_by_state_def state_hours_aware)
qed

lemma metrics_aware_end:
  assumes "fetch_events db e \<noteq> []"
  shows "metrics_time_by_state fl db period_start now (Some f) (Some (Aware e)) = Inl ServerError"
  using assms by (simp add: metrics_time_by_state_def resolve_range_def state_hours_aware)

lemma fetch_sample_log:
  "0 \<le> d \<Longrightarrow> fetch_events (log_db (sample_log t0)) (t0 + d) = sample_log t0"
  by (simp add: fetch_events_def log_db_def sample_log_def sample_event_def hour_def
      fetch_limit_def less_eq_prod_def)

lemma state_hours_sample_3:
  "state_hours fl (Naive (t0 + 3 * hour)) (sample_log t0) =
     Inr [(Pendiente, f_round1 fl (f_add fl (f_zero fl) (td_hours fl (2 * hour)))),
          (En_progreso, f_round1 fl (f_add fl (f_zero fl) (td_hours fl (3 * hour))))]"
  by (simp add: state_hours_def sample_log_def sample_event_def walk_event_def Let_def
      add_hours_def minus_naive_def hour_def)

lemma state_hours_sample_7:
  "state_hours fl (Naive (t0 + 7 * hour)) (sample_log t0) =
     Inr [(Pendiente, f_round1 fl (f_add fl (f_zero fl) (td_hours fl (2 * hour)))),
          (En_progreso, f_round1 fl (f_add fl (f_zero fl) (td_hours fl (3 * hour)))),
          (Finalizada, f_round1 fl (f_add fl (f_zero fl) (td_hours fl (2 * hour))))]"
  by (simp add: state_hours_def sample_log_def sample_event_def walk_event_def Let_def
      add_hours_def minus_naive_def hour_def)

text \<open>
  C7. \<open>metrics_time_by_state\<close> does not compute the residence times of the records up
  to the window end. With the default range (one of \<open>date_from\<close>, \<open>date_to\<close> absent) the
  window end is the timezone-aware \<open>datetime.now(timezone.utc)\<close>, the stored times come
  back naive, and as soon as one record is fetched the subtraction \<open>end - last_t\<close> raises:
  the request fails as a server error. The same holds for an explicit range whose end
  carries an offset. So the ticket with \<open>Pendiente\<close> at \<open>t0\<close>, \<open>En_progreso\<close> at
  \<open>t0 + 2h\<close> and \<open>Finalizada\<close> at \<open>t0 + 5h\<close>, asked about at \<open>t0 + 7h\<close> with the default
  range, gives an error and no hours. With an explicit naive range that ends at
  \<open>t0 + 3h\<close> the handler walks the record at \<open>t0 + 5h\<close>, which lies after the window
  end: \<open>En_progreso\<close> gets the hours of a stretch of three hours, where the records up to
  the window end give it one hour, and \<open>Finalizada\<close> gets nothing. With an explicit naive
  range that ends at \<open>t0 + 7h\<close> the handler answers with the hours of stretches of
  two, three and two hours for \<open>Pendiente\<close>, \<open>En_progreso\<close> and \<open>Finalizada\<close>, each
  added to \<open>0.0\<close> and rounded.
\<close>

theorem time_by_state_breaks:
  "(fetch_events db now \<noteq> [] \<and> (date_from = None \<or> date_to = None) \<longrightarrow>
      metrics_time_by_state fl db period_start now date_from date_to = Inl ServerError)
   \<and> (fetch_events db e \<noteq> [] \<longrightarrow>
      metrics_time_by_state fl db period_start now (Some f) (Some (Aware e)) = Inl ServerError)
   \<and> metrics_time_by_state fl (log_db (sample_log t0)) period_start (t0 + 7 * hour) None None
       = Inl ServerError
   \<and> metrics_time_by_state fl (log_db (sample_log t0)) period_start now
        (Some (Naive t0)) (Some (Naive (t0 + 3 * hour)))
       = Inr (Naive t0, Naive (t0 + 3 * hour),
              [(Pendiente, f_round1 fl (f_add fl (f_zero fl) (td_hours fl (2 * hour)))),
               (En_progreso, f_round1 fl (f_add fl (f_zero fl) (td_hours fl (3 * hour))))])
   \<and> metrics_time_by_state fl (log_db (sample_log t0)) period_start now
        (Some (Naive t0)) (Some (Naive (t0 + 7 * hour)))
       = Inr (Naive t0, Naive (t0 + 7 * hour),
              [(Pendiente, f_round1 fl (f_add fl (f_zero fl) (td_hours fl (2 * hour)))),
               (En_progreso, f_round1 fl (f_add fl (f_zero fl) (td_hours fl (3 * hour)))),
               (Finalizada, f_round1 fl (f_add fl (f_zero fl) (td_hours fl (2 * hour))))])"
proof -
  have f3: "fetch_events (log_db (sample_log t0)) (t0 + 3 * hour) = sample_log t0"
    using fetch_sample_log [of "3 * hour" t0] by (simp add: hour_def)
  have f7: "fetch_events (log_db (sample_log t0)) (t0 + 7 * hour) = sample_log t0"
    using fetch_sample_log [of "7 * hour" t0] by (simp add: hour_def)
  have ne: "sample_log t0 \<noteq> []"
    by (simp add: sample_log_def)
  have a: "fetch_events db now \<noteq> [] \<and> (date_from = None \<or> date_to = None) \<longrightarrow>
      metrics_time_by_state fl db period_start now date_from date_to = Inl ServerError"
    using metrics_period_range [of date_from date_to db now fl period_start] by blast
  have b: "fetch_events db e \<noteq> [] \<longrightarrow>
      metrics_time_by_state fl db period_start now (Some f) (Some (Aware e)) = Inl ServerError"
    using metrics_aware_end [of db e fl period_start now f] by blast
  have c: "metrics_time_by_state fl (log_db (sample_log t0)) period_start (t0 + 7 * hour) None None
       = Inl ServerError"
    using metrics_period_range [of None None "log_db (sample_log t0)" "t0 + 7 * hour" fl period_start]
      f7 ne by simp
  have d: "metrics_time_by_state fl (log_db (sample_log t0)) period_start now
        (Some (Naive t0)) (Some (Naive (t0 + 3 * hour)))
       = Inr (Naive t0, Naive (t0 + 3 * hour),
              [(Pendiente, f_round1 fl (f_add fl (f_zero fl) (td_hours fl (2 * hour)))),
               (En_progreso, f_round1 fl (f_add fl (f_zero fl) (td_hours fl (3 * hour))))])"
    by (simp add: metrics_time_by_state_def resolve_range_def f3 state_hours_sample_3)
  have e: "metrics_time_by_state fl (log_db (sample_log t0)) period_start now
        (Some (Naive t0)) (Some (Naive (t0 + 7 * hour)))
       = Inr (Naive t0, Naive (t0 + 7 * hour),
              [(Pendiente, f_round1 fl (f_add fl (f_zero fl) (td_hours fl (2 * hour)))),
               (En_progreso, f_round1 fl (f_add fl (f_zero fl) (td_hours fl (3 * hour)))),
               (Finalizada, f_round1 fl (f_add fl (f_zero fl) (td_hours fl (2 * hour))))])"
    by (simp add: metrics_time_by_state_def resolve_range_def f7 state_hours_sample_7)
  show ?thesis
    using a b c d e by blast
qed

text \<open>
  The default range and an aware explicit range on the stored log of the one ticket,
  with \<open>t0 = 0\<close>.
\<close>

theorem time_by_state_breaks_witness:
  "fetch_events (log_db (sample_log 0)) (7 * hour) = sample_log 0
   \<and> metrics_time_by_state no_float (log_db (sample_log 0)) 0 (7 * hour) None None
       = Inl ServerError
   \<and> metrics_time_by_state no_float (log_db (sample_log 0)) 0 (7 * hour)
        (Some (Aware 0)) (Some (Aware (7 * hour))) = Inl ServerError"
proof -
  have f7: "fetch_events (log_db (sample_log 0)) (7 * hour) = sample_log 0"
    using fetch_sample_log [of "7 * hour" 0] by (simp add: hour_def)
  have ne: "sample_log 0 \<noteq> []"
    by (simp add: sample_log_def)
  show ?thesis
    using time_by_state_breaks [of "log_db (sample_log 0)" "7 * hour" None None no_float 0
        "7 * hour" "Aware 0" 0] f7 ne
    by simp
qed

end
